theory Spec2Isabelle
  imports Complex_Main
begin

section \<open>Data model (types.ts)\<close>

text \<open>
  JavaScript numbers are modelled as mathematical reals (real); pixel sizes of
  decoded images (naturalWidth, naturalHeight) are natural numbers and
  tile indices are integers.  Field names carry a short prefix where the source's
  one-letter names would clash with variables.
\<close>

datatype AppState =
  IDLE | LOADING | LOADED | SELECTING | ANALYZING | ENHANCING | ENHANCED | CAMERA_ACTIVE

record Rect =
  rect_x :: real
  rect_y :: real
  rect_w :: real
  rect_h :: real

record Point =
  pt_x :: real
  pt_y :: real

section \<open>ImageDisplay.tsx: the viewport\<close>

text \<open>
  What a handler of the component reads besides pan and zoom: the isBusy prop, the
  world height, and the bounding client rectangle of the canvas when canvasRef.current
  is set.
\<close>

record ViewEnv =
  isBusy :: bool
  worldHeight :: real
  canvas :: "Rect option"

record ViewState =
  pan :: Point
  zoom :: real

text \<open>The vertical clamp that handleWheel and handleMouseMove write out in full.\<close>

definition clampPanY :: "real \<Rightarrow> real \<Rightarrow> real \<Rightarrow> real \<Rightarrow> real" where
  "clampPanY cssHeight wHeight z newPanY =
     (let worldPixelHeight = wHeight * z in
      if worldPixelHeight > cssHeight
      then max (min newPanY 0) (cssHeight - worldPixelHeight)
      else (cssHeight - worldPixelHeight) / 2)"

text \<open>
  handleWheel: deltaY is the scroll amount, client the cursor position.
  With no canvas, getMousePos dereferences null and the handler stops before any update.
\<close>

definition handleWheel :: "ViewEnv \<Rightarrow> real \<Rightarrow> Point \<Rightarrow> ViewState \<Rightarrow> ViewState" where
  "handleWheel env deltaY client vs =
     (if isBusy env then vs
      else case canvas env of
        None \<Rightarrow> vs
      | Some r \<Rightarrow>
         (let isZoomingIn = deltaY < 0;
              zoomIntensity = 1 / 10;
              zoomFactor = (if isZoomingIn then exp zoomIntensity else exp (- zoomIntensity));
              newZoom = max (1 / 10) (min (zoom vs * zoomFactor) 50);
              pos = \<lparr>pt_x = pt_x client - rect_x r, pt_y = pt_y client - rect_y r\<rparr>;
              newPanX = pt_x (pan vs) - (pt_x pos - pt_x (pan vs)) * (zoomFactor - 1);
              newPanY = pt_y (pan vs) - (pt_y pos - pt_y (pan vs)) * (zoomFactor - 1);
              newPanY' = clampPanY (rect_h r) (worldHeight env) newZoom newPanY
          in \<lparr>pan = \<lparr>pt_x = newPanX, pt_y = newPanY'\<rparr>, zoom = newZoom\<rparr>))"

text \<open>handleMouseMove while a drag is active; panStart was stored by handleMouseDown.\<close>

definition handleMouseMove :: "ViewEnv \<Rightarrow> bool \<Rightarrow> Point \<Rightarrow> Point \<Rightarrow> ViewState \<Rightarrow> ViewState" where
  "handleMouseMove env isPanning panStart client vs =
     (if isPanning then
        (case canvas env of
           None \<Rightarrow> vs
         | Some r \<Rightarrow>
            (let pos = \<lparr>pt_x = pt_x client - rect_x r, pt_y = pt_y client - rect_y r\<rparr>;
                 newPanY = pt_y pos - pt_y panStart;
                 newPanY' = clampPanY (rect_h r) (worldHeight env) (zoom vs) newPanY
             in vs\<lparr>pan := \<lparr>pt_x = pt_x pos - pt_x panStart, pt_y = newPanY'\<rparr>\<rparr>))
      else vs)"

definition handleZoomIn :: "ViewState \<Rightarrow> ViewState" where
  "handleZoomIn vs = vs\<lparr>zoom := min (zoom vs * (5 / 4)) 50\<rparr>"

definition handleZoomOut :: "ViewState \<Rightarrow> ViewState" where
  "handleZoomOut vs = vs\<lparr>zoom := max (1 / 10) (zoom vs / (5 / 4))\<rparr>"

definition handleResetZoom :: "ViewEnv \<Rightarrow> ViewState \<Rightarrow> ViewState" where
  "handleResetZoom env vs =
     (case canvas env of
        Some r \<Rightarrow>
          (let cssHeight = rect_h r;
               worldPixelHeight = worldHeight env * 1;
               newPanY = (if worldPixelHeight > cssHeight then 0
                          else (cssHeight - worldPixelHeight) / 2)
           in \<lparr>pan = \<lparr>pt_x = 0, pt_y = newPanY\<rparr>, zoom = 1\<rparr>)
      | None \<Rightarrow> \<lparr>pan = \<lparr>pt_x = 0, pt_y = 0\<rparr>, zoom = 1\<rparr>)"

text \<open>
  One zoom gesture: a wheel tick on the canvas (with the environment the handler sees) or a
  click on one of the two zoom buttons.
\<close>

datatype ZoomOp = Wheel ViewEnv real Point | ZoomInButton | ZoomOutButton

fun applyZoomOp :: "ZoomOp \<Rightarrow> ViewState \<Rightarrow> ViewState" where
  "applyZoomOp (Wheel env deltaY client) vs = handleWheel env deltaY client vs"
| "applyZoomOp ZoomInButton vs = handleZoomIn vs"
| "applyZoomOp ZoomOutButton vs = handleZoomOut vs"

text \<open>The states after each gesture of a sequence, in order.\<close>

fun zoomTrace :: "ViewState \<Rightarrow> ZoomOp list \<Rightarrow> ViewState list" where
  "zoomTrace vs [] = []"
| "zoomTrace vs (op # ops) = applyZoomOp op vs # zoomTrace (applyZoomOp op vs) ops"

text \<open>
  The vertical clamp as a property of a view state, for a viewport of height cssHeight and
  a world of height wHeight.
\<close>

definition verticalClampHolds :: "real \<Rightarrow> real \<Rightarrow> ViewState \<Rightarrow> bool" where
  "verticalClampHolds cssHeight wHeight vs =
     (if wHeight * zoom vs > cssHeight
      then cssHeight - wHeight * zoom vs \<le> pt_y (pan vs) \<and> pt_y (pan vs) \<le> 0
      else pt_y (pan vs) = (cssHeight - wHeight * zoom vs) / 2)"

text \<open>
  The tile lookup of draw.  JavaScript's remainder takes the sign of the dividend; the
  loop variable and the column count are integers.
\<close>

definition js_rem :: "int \<Rightarrow> int \<Rightarrow> int" where
  "js_rem a b = sgn a * (\<bar>a\<bar> mod \<bar>b\<bar>)"

definition numWorldTiles :: "nat \<Rightarrow> nat \<Rightarrow> int" where
  "numWorldTiles worldExtent tileSize = \<lceil>real worldExtent / real tileSize\<rceil>"

definition wrappedX :: "int \<Rightarrow> int \<Rightarrow> int" where
  "wrappedX numWorldTilesX c = js_rem (js_rem c numWorldTilesX + numWorldTilesX) numWorldTilesX"

text \<open>
  tileAt is the lookup in the body of draw's loops; draw returns before the loops when the
  world width is 0.  Keys are the pairs (column, row) that the source writes as the string
  col:row.
\<close>

definition tileAt :: "(int \<times> int \<rightharpoonup> 'tile) \<Rightarrow> nat \<Rightarrow> nat \<Rightarrow> int \<Rightarrow> int \<Rightarrow> 'tile option" where
  "tileAt tileMap worldWidth tileSize c r =
     (if worldWidth = 0 then None
      else tileMap (wrappedX (numWorldTiles worldWidth tileSize) c, r))"

section \<open>App.tsx: the world model\<close>

record GPSCoordinates =
  latitude :: real
  longitude :: real

text \<open>The members of LocationStatus that the components use.\<close>

datatype LocationStatus =
  NOT_SUPPORTED | REQUESTING | ACQUIRED | UNAVAILABLE | VGPS_ACTIVE | VGPS_CALIBRATING

datatype CaptureType = EQUIRECTANGULAR | PERSPECTIVE

record Camera =
  position :: "real \<times> real \<times> real"
  rotation :: "real \<times> real \<times> real"
  fov :: real

definition defaultCamera :: Camera where
  "defaultCamera = \<lparr>position = (0, 0, 0), rotation = (0, 0, 0), fov = 90\<rparr>"

text \<open>
  A capture id is the string capture-default or capture- followed by Date.now(); the
  clock reading is an argument of the handlers that build one.
\<close>

datatype CaptureId = CaptureDefault | CaptureAt nat

record 'img Capture =
  cap_id :: CaptureId
  cap_type :: CaptureType
  cap_image :: 'img
  cap_camera :: Camera
  cap_gps :: "GPSCoordinates option"
  cap_locationStatus :: "LocationStatus option"

record 'img TileData =
  tile_image :: 'img
  isEnhanced :: bool

type_synonym 'img TileMap = "int \<times> int \<rightharpoonup> 'img TileData"

record Size =
  width :: nat
  height :: nat

record EnhancementJob =
  job_worldRect :: Rect
  job_screenRect :: Rect

record 'img RegionImage =
  src :: 'img
  worldRect :: Rect

text \<open>
  The state of the App component, one field per useState.  pan and zoom are the view
  state handed to ImageDisplay.  A handler that an event calls runs on the state of the
  latest render; the callback of the inference timer runs on the render that armed it.
  An asynchronous handler runs to its end before the next event, except where a
  definition below gives the state at which it waits (handleNewCapture_awaiting) or
  splits it (handleEnhancementComplete and the onload handler it installs).
\<close>

record 'img App =
  appState :: AppState
  captures :: "'img Capture list"
  tiles :: "'img TileMap"
  worldSize :: Size
  view :: ViewState
  enhancementJob :: "EnhancementJob option"
  stitchedEnhanceImage :: "'img RegionImage option"
  enhancedResult :: "'img RegionImage option"
  showBananaBanner :: bool
  hasFoundBanana :: bool
  isDefaultWorld :: bool

definition initialApp :: "'img App" where
  "initialApp =
     \<lparr>appState = IDLE, captures = [], tiles = Map.empty,
      worldSize = \<lparr>width = 0, height = 0\<rparr>,
      view = \<lparr>pan = \<lparr>pt_x = 0, pt_y = 0\<rparr>, zoom = 1\<rparr>,
      enhancementJob = None, stitchedEnhanceImage = None, enhancedResult = None,
      showBananaBanner = False, hasFoundBanana = False, isDefaultWorld = False\<rparr>"

text \<open>
  The numbers of calculateDistance.  Its result depends on how the engine rounds and on
  its Math library (Math.sin, Math.cos and Math.atan2 are approximations that differ
  between engines), and it can be NaN.  So a value is a finite number, an infinity or
  NaN, and the operations of the engine are not fixed here: they are fields of Float64.
  The comparison by > is exact: it is false as soon as one side is NaN.
\<close>

datatype JSNumber = Finite real | PosInfinity | NegInfinity | NaN

fun js_gt :: "JSNumber \<Rightarrow> JSNumber \<Rightarrow> bool" where
  "js_gt (Finite a) (Finite b) = (a > b)"
| "js_gt PosInfinity (Finite b) = True"
| "js_gt PosInfinity NegInfinity = True"
| "js_gt (Finite a) NegInfinity = True"
| "js_gt a b = False"

record Float64 =
  f64_add :: "JSNumber \<Rightarrow> JSNumber \<Rightarrow> JSNumber"
  f64_sub :: "JSNumber \<Rightarrow> JSNumber \<Rightarrow> JSNumber"
  f64_mul :: "JSNumber \<Rightarrow> JSNumber \<Rightarrow> JSNumber"
  f64_div :: "JSNumber \<Rightarrow> JSNumber \<Rightarrow> JSNumber"
  Math_PI :: JSNumber
  Math_sin :: "JSNumber \<Rightarrow> JSNumber"
  Math_cos :: "JSNumber \<Rightarrow> JSNumber"
  Math_sqrt :: "JSNumber \<Rightarrow> JSNumber"
  Math_atan2 :: "JSNumber \<Rightarrow> JSNumber \<Rightarrow> JSNumber"

text \<open>
  What the code takes from the browser and from the imported utils/imageUtils: the pixel
  size of a decoded image, cropImage (its data URL and the decoded image are one value
  here), whether a canvas yields a 2D context, the raster that a canvas of a given
  size holds after a list of drawImage calls (image, x, y), and the arithmetic of the
  engine.
\<close>

record 'img Platform =
  naturalWidth :: "'img \<Rightarrow> nat"
  naturalHeight :: "'img \<Rightarrow> nat"
  cropImage :: "'img \<Rightarrow> Rect \<Rightarrow> real \<Rightarrow> real \<Rightarrow> bool \<Rightarrow> 'img"
  context2d :: bool
  canvasToDataURL :: "real \<Rightarrow> real \<Rightarrow> ('img \<times> real \<times> real) list \<Rightarrow> 'img"
  float64 :: Float64

definition TILE_SIZE :: nat where
  "TILE_SIZE = 512"

definition GPS_DISTANCE_THRESHOLD_METERS :: real where
  "GPS_DISTANCE_THRESHOLD_METERS = 100"

subsection \<open>tileizeImage\<close>

text \<open>
  The crop rectangle of tile (c, r) of an image of W by H pixels.  The tile size is an
  argument; tileizeImage passes TILE_SIZE.
\<close>

definition cropRectAt :: "nat \<Rightarrow> nat \<Rightarrow> nat \<Rightarrow> int \<Rightarrow> int \<Rightarrow> Rect" where
  "cropRectAt tileSize W H c r =
     \<lparr>rect_x = real_of_int (c * int tileSize),
      rect_y = real_of_int (r * int tileSize),
      rect_w = real_of_int (min (int tileSize) (int W - c * int tileSize)),
      rect_h = real_of_int (min (int tileSize) (int H - r * int tileSize))\<rparr>"

text \<open>The body of the inner loop, for row r and column c.\<close>

definition tileizeCell ::
  "'img Platform \<Rightarrow> nat \<Rightarrow> 'img \<Rightarrow> int \<Rightarrow> int \<Rightarrow> 'img TileMap \<Rightarrow> 'img TileMap" where
  "tileizeCell P tileSize img r c newTiles =
     (let cropRect = cropRectAt tileSize (naturalWidth P img) (naturalHeight P img) c r in
      if rect_w cropRect > 0 \<and> rect_h cropRect > 0
      then newTiles((c, r) \<mapsto>
             \<lparr>tile_image = cropImage P img cropRect (rect_w cropRect) (rect_h cropRect) False,
              isEnhanced = False\<rparr>)
      else newTiles)"

definition tileize :: "'img Platform \<Rightarrow> nat \<Rightarrow> 'img \<Rightarrow> 'img TileMap" where
  "tileize P tileSize img =
     (let numCols = numWorldTiles (naturalWidth P img) tileSize;
          numRows = numWorldTiles (naturalHeight P img) tileSize
      in fold (\<lambda>r. fold (tileizeCell P tileSize img r) [0..numCols - 1])
           [0..numRows - 1] Map.empty)"

definition tileizeImage :: "'img Platform \<Rightarrow> 'img Capture \<Rightarrow> 'img App \<Rightarrow> 'img App" where
  "tileizeImage P capture s =
     (let img = cap_image capture in
      s\<lparr>worldSize := \<lparr>width = naturalWidth P img, height = naturalHeight P img\<rparr>,
        tiles := tileize P TILE_SIZE img\<rparr>)"

subsection \<open>World continuity: gpsUtils.ts, serviceCompareScenes.ts, handleNewCapture\<close>

text \<open>
  calculateDistance, operation by operation in the order in which JavaScript evaluates
  the expressions; the coordinates are finite numbers.
\<close>

definition calculateDistance :: "Float64 \<Rightarrow> GPSCoordinates \<Rightarrow> GPSCoordinates \<Rightarrow> JSNumber" where
  "calculateDistance F coords1 coords2 =
     (let R = Finite 6371000;
          phi1 = f64_div F (f64_mul F (Finite (latitude coords1)) (Math_PI F)) (Finite 180);
          phi2 = f64_div F (f64_mul F (Finite (latitude coords2)) (Math_PI F)) (Finite 180);
          dphi = f64_div F
                   (f64_mul F (f64_sub F (Finite (latitude coords2)) (Finite (latitude coords1)))
                      (Math_PI F))
                   (Finite 180);
          dlambda = f64_div F
                   (f64_mul F (f64_sub F (Finite (longitude coords2)) (Finite (longitude coords1)))
                      (Math_PI F))
                   (Finite 180);
          a = f64_add F
                (f64_mul F (Math_sin F (f64_div F dphi (Finite 2)))
                   (Math_sin F (f64_div F dphi (Finite 2))))
                (f64_mul F
                   (f64_mul F (f64_mul F (Math_cos F phi1) (Math_cos F phi2))
                      (Math_sin F (f64_div F dlambda (Finite 2))))
                   (Math_sin F (f64_div F dlambda (Finite 2))));
          c = f64_mul F (Finite 2)
                (Math_atan2 F (Math_sqrt F a) (Math_sqrt F (f64_sub F (Finite 1) a)));
          d = f64_mul F R c
      in d)"

text \<open>
  What the scene comparison meets outside the program: encoding the two images may fail
  (before the try block, so the rejection reaches the caller), the request or the parsing
  of its answer may raise (inside the try block), or an answer arrives whose isSameScene
  field is a boolean or is missing.
\<close>

datatype CompareOutcome = EncodingRaises | RequestRaises | Answer "bool option"

datatype Raised = Raised

definition serviceCompareScenes :: "CompareOutcome \<Rightarrow> Raised + bool" where
  "serviceCompareScenes outcome =
     (case outcome of
        EncodingRaises \<Rightarrow> Inl Raised
      | RequestRaises \<Rightarrow> Inr True
      | Answer isSameScene \<Rightarrow> Inr (case isSameScene of Some b \<Rightarrow> b | None \<Rightarrow> False))"

text \<open>
  startNewWorld; tileizeImage is started without being awaited, and the model lets it run
  to its two state updates at once.
\<close>

definition startNewWorld ::
  "'img Platform \<Rightarrow> nat \<Rightarrow> 'img \<Rightarrow> GPSCoordinates option \<Rightarrow> LocationStatus option \<Rightarrow>
   'img App \<Rightarrow> 'img App" where
  "startNewWorld P now img gps locationStatus s =
     (let newCapture =
            \<lparr>cap_id = CaptureAt now, cap_type = EQUIRECTANGULAR, cap_image = img,
             cap_camera = defaultCamera, cap_gps = gps, cap_locationStatus = locationStatus\<rparr>
      in (tileizeImage P newCapture (s\<lparr>captures := [newCapture]\<rparr>))
           \<lparr>view := \<lparr>pan = \<lparr>pt_x = 0, pt_y = 0\<rparr>, zoom = 1\<rparr>,
            isDefaultWorld := False,
            hasFoundBanana := False,
            showBananaBanner := False,
            appState := LOADED\<rparr>)"

definition perspectiveCapture ::
  "nat \<Rightarrow> 'img \<Rightarrow> GPSCoordinates option \<Rightarrow> LocationStatus option \<Rightarrow> 'img Capture" where
  "perspectiveCapture now img gps locationStatus =
     \<lparr>cap_id = CaptureAt now, cap_type = PERSPECTIVE, cap_image = img,
      cap_camera = defaultCamera, cap_gps = gps, cap_locationStatus = locationStatus\<rparr>"

text \<open>The value of the local variable isNewWorldGps of handleNewCapture.\<close>

definition isNewWorldGps ::
  "'img Platform \<Rightarrow> 'img App \<Rightarrow> 'img Capture \<Rightarrow> GPSCoordinates option \<Rightarrow> bool" where
  "isNewWorldGps P s baseCapture gps =
     (case gps of
        Some g \<Rightarrow>
          (case cap_gps baseCapture of
             Some bg \<Rightarrow>
               js_gt (calculateDistance (float64 P) g bg) (Finite GPS_DISTANCE_THRESHOLD_METERS)
           | None \<Rightarrow> isDefaultWorld s)
      | None \<Rightarrow> False)"

definition handleNewCapture ::
  "'img Platform \<Rightarrow> nat \<Rightarrow> CompareOutcome \<Rightarrow> 'img \<Rightarrow> GPSCoordinates option \<Rightarrow>
   LocationStatus option \<Rightarrow> 'img App \<Rightarrow> 'img App" where
  "handleNewCapture P now outcome img gps locationStatus s =
     (case captures s of
        [] \<Rightarrow> startNewWorld P now img gps locationStatus s
      | baseCapture # _ \<Rightarrow>
         (if isNewWorldGps P s baseCapture gps
          then startNewWorld P now img gps locationStatus s
          else if isDefaultWorld s then
            (case serviceCompareScenes outcome of
               Inr isSameScene \<Rightarrow>
                 if \<not> isSameScene
                 then startNewWorld P now img gps locationStatus (s\<lparr>appState := ANALYZING\<rparr>)
                 else s\<lparr>captures := captures s @ [perspectiveCapture now img gps locationStatus],
                        appState := LOADED\<rparr>
             | Inl error \<Rightarrow>
                 s\<lparr>captures := captures s @ [perspectiveCapture now img gps locationStatus],
                   appState := LOADED\<rparr>)
          else s\<lparr>captures := captures s @ [perspectiveCapture now img gps locationStatus]\<rparr>))"

text \<open>
  The state in which handleNewCapture waits for serviceCompareScenes, when it gets that
  far: it has set the state to ANALYZING and nothing else.
\<close>

definition handleNewCapture_awaiting ::
  "'img Platform \<Rightarrow> GPSCoordinates option \<Rightarrow> 'img App \<Rightarrow> 'img App option" where
  "handleNewCapture_awaiting P gps s =
     (case captures s of
        [] \<Rightarrow> None
      | baseCapture # _ \<Rightarrow>
         (if isNewWorldGps P s baseCapture gps then None
          else if isDefaultWorld s then Some (s\<lparr>appState := ANALYZING\<rparr>)
          else None))"

text \<open>
  loadInitialImage: the synchronous part, and the onload handler of the fetched image,
  which builds the default world unless a capture exists already.
\<close>

definition loadInitialImage :: "'img App \<Rightarrow> 'img App" where
  "loadInitialImage s = s\<lparr>appState := LOADING\<rparr>"

definition loadInitialImage_onload :: "'img Platform \<Rightarrow> 'img \<Rightarrow> 'img App \<Rightarrow> 'img App" where
  "loadInitialImage_onload P img s =
     (if length (captures s) > 0 then s
      else
        (let newCapture =
               \<lparr>cap_id = CaptureDefault, cap_type = EQUIRECTANGULAR, cap_image = img,
                cap_camera = defaultCamera, cap_gps = None, cap_locationStatus = None\<rparr>
         in (tileizeImage P newCapture (s\<lparr>captures := [newCapture]\<rparr>))
              \<lparr>view := \<lparr>pan = \<lparr>pt_x = 0, pt_y = 0\<rparr>, zoom = 1\<rparr>,
               isDefaultWorld := True,
               appState := LOADED\<rparr>))"

definition loadInitialImage_onerror :: "'img App \<Rightarrow> 'img App" where
  "loadInitialImage_onerror s = s\<lparr>appState := IDLE\<rparr>"

definition resetState :: "'img App \<Rightarrow> 'img App" where
  "resetState s =
     loadInitialImage
       (s\<lparr>captures := [],
          tiles := Map.empty,
          showBananaBanner := False,
          enhancementJob := None,
          stitchedEnhanceImage := None,
          enhancedResult := None,
          isDefaultWorld := False\<rparr>)"

subsection \<open>The enhancement pipeline: serviceEnhance.ts and the handlers of App.tsx\<close>

text \<open>
  What the image service meets outside the program: building the client may raise (before
  the try block), the request may raise or return no candidates, contents or parts (inside
  it), or a list of parts arrives.  A text part counts by whether it parses to a JSON value
  with a truthy foundTheBanana; an inline-data part carries an image.
\<close>

datatype 'img ResponsePart = TextPart bool | InlineData 'img | EmptyPart

datatype 'img EnhanceOutcome = ClientRaises | GenerationRaises | Parts "'img ResponsePart list"

fun readPart :: "'img ResponsePart \<Rightarrow> 'img \<times> bool \<Rightarrow> 'img \<times> bool" where
  "readPart (TextPart banana) (imageSrc, foundTheBanana) =
     (imageSrc, if banana then True else foundTheBanana)"
| "readPart (InlineData imageData) (imageSrc, foundTheBanana) = (imageData, foundTheBanana)"
| "readPart EmptyPart (imageSrc, foundTheBanana) = (imageSrc, foundTheBanana)"

definition serviceEnhance ::
  "'img EnhanceOutcome \<Rightarrow> 'img \<Rightarrow> string \<Rightarrow> bool \<Rightarrow> Raised + 'img \<times> bool" where
  "serviceEnhance outcome croppedImageDataUrl prompt hasFound =
     (case outcome of
        ClientRaises \<Rightarrow> Inl Raised
      | _ \<Rightarrow>
        if prompt = [] then Inr (croppedImageDataUrl, False)
        else (case outcome of
                Parts parts \<Rightarrow> Inr (fold readPart parts (croppedImageDataUrl, False))
              | _ \<Rightarrow> Inr (croppedImageDataUrl, False)))"

text \<open>The instruction that performEnhancement sends (its first sentence stands for the text).\<close>

definition enhancePrompt :: string where
  "enhancePrompt = ''Enhance this image, increasing its resolution and adding fine details.''"

definition performEnhancement :: "'img EnhanceOutcome \<Rightarrow> 'img App \<Rightarrow> 'img App" where
  "performEnhancement outcome s =
     (case stitchedEnhanceImage s of
        None \<Rightarrow> s
      | Some stitched \<Rightarrow>
         (let s' =
            (case serviceEnhance outcome (src stitched) enhancePrompt (hasFoundBanana s) of
               Inr (enhancedStitchedSrc, foundTheBanana) \<Rightarrow>
                 (if foundTheBanana
                  then s\<lparr>showBananaBanner := True, hasFoundBanana := True\<rparr>
                  else s)
                 \<lparr>enhancedResult :=
                    Some \<lparr>src = enhancedStitchedSrc, worldRect = worldRect stitched\<rparr>\<rparr>
             | Inl error \<Rightarrow>
                 s\<lparr>enhancedResult :=
                     Some \<lparr>src = src stitched, worldRect = worldRect stitched\<rparr>\<rparr>)
          in s'\<lparr>appState := ENHANCED, enhancementJob := None\<rparr>))"

text \<open>
  A handler that runs later than the render that created it (the callback of the inference
  timer) reads the values of that render and writes to the state of the moment at which it
  runs.  handleInpaint is created by useCallback with the dependencies appState and tiles,
  so these two are read from the render of the closure; its three updates set values that
  do not depend on the state.
\<close>

text \<open>The draw calls of handleInpaint's loops, row by row, for the tiles that exist.\<close>

definition stitchDraws ::
  "'img TileMap \<Rightarrow> Rect \<Rightarrow> int \<Rightarrow> int \<Rightarrow> int \<Rightarrow> int \<Rightarrow> ('img \<times> real \<times> real) list" where
  "stitchDraws tileMap stitchedWorldRect startTileX endTileX startTileY endTileY =
     concat (map (\<lambda>r. concat (map (\<lambda>c.
        (case tileMap (c, r) of
           Some tile \<Rightarrow>
             [(tile_image tile,
               real_of_int (c * int TILE_SIZE) - rect_x stitchedWorldRect,
               real_of_int (r * int TILE_SIZE) - rect_y stitchedWorldRect)]
         | None \<Rightarrow> [])) [startTileX..endTileX])) [startTileY..endTileY])"

definition handleInpaint ::
  "'img Platform \<Rightarrow> 'img App \<Rightarrow> Rect \<Rightarrow> Rect \<Rightarrow> 'img App \<Rightarrow> 'img App" where
  "handleInpaint P render wRect screenRect s =
     (if appState render \<noteq> LOADED then s
      else
        (let startTileX = \<lfloor>rect_x wRect / real TILE_SIZE\<rfloor>;
             startTileY = \<lfloor>rect_y wRect / real TILE_SIZE\<rfloor>;
             endTileX = \<lfloor>(rect_x wRect + rect_w wRect) / real TILE_SIZE\<rfloor>;
             endTileY = \<lfloor>(rect_y wRect + rect_h wRect) / real TILE_SIZE\<rfloor>
         in if \<not> context2d P then s
            else
              (let stitchedWorldRect =
                     \<lparr>rect_x = real_of_int (startTileX * int TILE_SIZE),
                      rect_y = real_of_int (startTileY * int TILE_SIZE),
                      rect_w = real_of_int ((endTileX - startTileX + 1) * int TILE_SIZE),
                      rect_h = real_of_int ((endTileY - startTileY + 1) * int TILE_SIZE)\<rparr>;
                   stitchedSrc =
                     canvasToDataURL P (rect_w stitchedWorldRect) (rect_h stitchedWorldRect)
                       (stitchDraws (tiles render) stitchedWorldRect
                          startTileX endTileX startTileY endTileY)
               in s\<lparr>stitchedEnhanceImage :=
                       Some \<lparr>src = stitchedSrc, worldRect = stitchedWorldRect\<rparr>,
                     enhancementJob :=
                       Some \<lparr>job_worldRect = wRect, job_screenRect = screenRect\<rparr>,
                     appState := ENHANCING\<rparr>)))"

text \<open>
  handleEnhancementComplete starts decoding the result and returns; the work is in the
  onload handler of the decoded image.  retileCell is the body of its inner loop,
  updatedTilesOf the map that the two loops build.
\<close>

definition retileCell ::
  "'img Platform \<Rightarrow> 'img \<Rightarrow> Rect \<Rightarrow> int \<Rightarrow> int \<Rightarrow> 'img TileMap \<Rightarrow> 'img TileMap" where
  "retileCell P enhancedImage wRect r c updatedTiles =
     (let cropRect =
            \<lparr>rect_x = real_of_int (c * int TILE_SIZE) - rect_x wRect,
             rect_y = real_of_int (r * int TILE_SIZE) - rect_y wRect,
             rect_w = real TILE_SIZE,
             rect_h = real TILE_SIZE\<rparr>
      in updatedTiles((c, r) \<mapsto>
           \<lparr>tile_image = cropImage P enhancedImage cropRect (real TILE_SIZE) (real TILE_SIZE) False,
            isEnhanced = True\<rparr>))"

definition updatedTilesOf :: "'img Platform \<Rightarrow> 'img RegionImage \<Rightarrow> 'img TileMap" where
  "updatedTilesOf P result =
     (let wRect = worldRect result;
          startTileX = \<lfloor>rect_x wRect / real TILE_SIZE\<rfloor>;
          startTileY = \<lfloor>rect_y wRect / real TILE_SIZE\<rfloor>;
          endTileX = \<lfloor>(rect_x wRect + rect_w wRect) / real TILE_SIZE\<rfloor>;
          endTileY = \<lfloor>(rect_y wRect + rect_h wRect) / real TILE_SIZE\<rfloor>
      in fold (\<lambda>r. fold (retileCell P (src result) wRect r) [startTileX..endTileX])
           [startTileY..endTileY] Map.empty)"

text \<open>
  The onload handler, run on the state in which it resumes: the merge is a functional
  update of the tile map of that moment.
\<close>

definition enhancedImage_onload :: "'img Platform \<Rightarrow> 'img RegionImage \<Rightarrow> 'img App \<Rightarrow> 'img App" where
  "enhancedImage_onload P result s =
     s\<lparr>tiles := tiles s ++ updatedTilesOf P result,
       stitchedEnhanceImage := None,
       enhancedResult := None,
       appState := LOADED\<rparr>"

text \<open>
  handleEnhancementComplete returns the result whose decoding it has started, if any;
  the state is not changed before the image has loaded.
\<close>

definition handleEnhancementComplete :: "'img App \<Rightarrow> 'img RegionImage option" where
  "handleEnhancementComplete s = enhancedResult s"

text \<open>The whole step when nothing else happens between the call and the load.\<close>

definition enhancementCompleted :: "'img Platform \<Rightarrow> 'img App \<Rightarrow> 'img App" where
  "enhancementCompleted P s =
     (case handleEnhancementComplete s of
        None \<Rightarrow> s
      | Some result \<Rightarrow> enhancedImage_onload P result s)"

subsection \<open>ImageDisplay.tsx: the trigger\<close>

text \<open>The props that App passes to ImageDisplay, for a canvas rectangle.\<close>

definition viewEnvOf :: "'img App \<Rightarrow> Rect option \<Rightarrow> ViewEnv" where
  "viewEnvOf s cv =
     \<lparr>isBusy = (appState s \<noteq> LOADED), worldHeight = real (height (worldSize s)), canvas = cv\<rparr>"

definition viewRectWorld :: "Rect \<Rightarrow> ViewState \<Rightarrow> Rect" where
  "viewRectWorld r vs =
     \<lparr>rect_x = - pt_x (pan vs) / zoom vs,
      rect_y = - pt_y (pan vs) / zoom vs,
      rect_w = rect_w r / zoom vs,
      rect_h = rect_h r / zoom vs\<rparr>"

text \<open>
  triggerInference is the callback that resetInferenceTimer hands to setTimeout, so it
  runs 1.5 s after the render that armed the timer, with the isBusy, zoom, pan and
  onInpaint of that render; canvasRef.current (cv, with its bounding rectangle) is read
  when it runs, and window is the size of the browser window.
\<close>

definition triggerInference ::
  "'img Platform \<Rightarrow> 'img App \<Rightarrow> Rect option \<Rightarrow> real \<times> real \<Rightarrow> 'img App \<Rightarrow> 'img App" where
  "triggerInference P render cv window s =
     (let env = viewEnvOf render cv in
      if isBusy env then s
      else case canvas env of
        None \<Rightarrow> s
      | Some r \<Rightarrow>
          if zoom (view render) > 101 / 100
          then handleInpaint P render (viewRectWorld r (view render))
                 \<lparr>rect_x = 0, rect_y = 0, rect_w = fst window, rect_h = snd window\<rparr> s
          else s)"

text \<open>ImageDisplay is rendered, so that canvasRef.current is set.\<close>

definition imageDisplayMounted :: "'img App \<Rightarrow> bool" where
  "imageDisplayMounted s =
     (dom (tiles s) \<noteq> {} \<and>
      appState s \<noteq> ENHANCED \<and> appState s \<noteq> ENHANCING \<and> appState s \<noteq> CAMERA_ACTIVE)"

subsection \<open>Events\<close>

text \<open>
  What can happen to the App component, with the conditions under which App.tsx renders
  the control that raises the event: the three buttons only when the state is LOADED, the
  camera view only when CAMERA_ACTIVE, SelectionAnimator (whose onComplete is
  performEnhancement) only when ENHANCING with a job and a stitched image, PixelDissolve
  (whose onComplete is handleEnhancementComplete) only when ENHANCED with a stitched image
  and a result.  A capture can arrive at any time (file drop, file input, camera).  The
  inference timer fires with the render that armed it.
\<close>

datatype 'img Event =
    InitialImageLoaded 'img
  | InitialImageFailed
  | NewCapture nat CompareOutcome 'img "GPSCoordinates option" "LocationStatus option"
  | ResetClicked
  | UseDeviceCamClicked
  | CameraClosed
  | ViewChanged ViewState
  | InferenceTimerFired "'img App" "Rect option" "real \<times> real"
  | SelectionAnimationComplete "'img EnhanceOutcome"
  | PixelDissolveComplete

fun dispatch :: "'img Platform \<Rightarrow> 'img Event \<Rightarrow> 'img App \<Rightarrow> 'img App" where
  "dispatch P (InitialImageLoaded img) s = loadInitialImage_onload P img s"
| "dispatch P InitialImageFailed s = loadInitialImage_onerror s"
| "dispatch P (NewCapture now outcome img gps locationStatus) s =
     handleNewCapture P now outcome img gps locationStatus s"
| "dispatch P ResetClicked s = (if appState s = LOADED then resetState s else s)"
| "dispatch P UseDeviceCamClicked s =
     (if appState s = LOADED then s\<lparr>appState := CAMERA_ACTIVE\<rparr> else s)"
| "dispatch P CameraClosed s =
     (if appState s = CAMERA_ACTIVE then s\<lparr>appState := LOADED\<rparr> else s)"
| "dispatch P (ViewChanged vs) s = s\<lparr>view := vs\<rparr>"
| "dispatch P (InferenceTimerFired render cv window) s = triggerInference P render cv window s"
| "dispatch P (SelectionAnimationComplete outcome) s =
     (if appState s = ENHANCING \<and> enhancementJob s \<noteq> None \<and> stitchedEnhanceImage s \<noteq> None
      then performEnhancement outcome s else s)"
| "dispatch P PixelDissolveComplete s =
     (if appState s = ENHANCED \<and> stitchedEnhanceImage s \<noteq> None \<and> enhancedResult s \<noteq> None
      then enhancementCompleted P s else s)"

text \<open>The state after a sequence of events; the component mounts by calling loadInitialImage.\<close>

definition run :: "'img Platform \<Rightarrow> 'img Event list \<Rightarrow> 'img App \<Rightarrow> 'img App" where
  "run P evs s = fold (dispatch P) evs s"

definition mounted :: "'img App" where
  "mounted = loadInitialImage initialApp"

text \<open>
  The tile keys of a world of a given size, and the property that the tile map holds a
  tile for exactly these keys.
\<close>

definition gridKeys :: "Size \<Rightarrow> (int \<times> int) set" where
  "gridKeys sz =
     {0 ..< numWorldTiles (width sz) TILE_SIZE} \<times> {0 ..< numWorldTiles (height sz) TILE_SIZE}"

definition tilesPartitionWorld :: "'img App \<Rightarrow> bool" where
  "tilesPartitionWorld s = (dom (tiles s) = gridKeys (worldSize s))"

text \<open>The keys that the loops of the onload handler write, for a result.\<close>

definition retiledKeys :: "'img RegionImage \<Rightarrow> (int \<times> int) set" where
  "retiledKeys result =
     (let wRect = worldRect result in
      {\<lfloor>rect_x wRect / real TILE_SIZE\<rfloor> .. \<lfloor>(rect_x wRect + rect_w wRect) / real TILE_SIZE\<rfloor>}
      \<times> {\<lfloor>rect_y wRect / real TILE_SIZE\<rfloor> .. \<lfloor>(rect_y wRect + rect_h wRect) / real TILE_SIZE\<rfloor>})"

text \<open>Pixel (px, py) lies in a rectangle.\<close>

definition inRect :: "Rect \<Rightarrow> nat \<Rightarrow> nat \<Rightarrow> bool" where
  "inRect r px py =
     (rect_x r \<le> real px \<and> real px < rect_x r + rect_w r \<and>
      rect_y r \<le> real py \<and> real py < rect_y r + rect_h r)"

section \<open>A symbolic platform for worked examples\<close>

text \<open>
  Rasters as terms: a photo of a given pixel size, a crop of a raster (source rectangle and
  output size), the content of a canvas after a list of draws, and a raster generated by
  the image service.  No two different terms are identified.
\<close>

datatype Raster =
    Photo nat nat
  | Cropped Raster Rect real real
  | Stitched real real "(Raster \<times> real \<times> real) list"
  | Generated nat nat

fun rasterWidth :: "Raster \<Rightarrow> nat" where
  "rasterWidth (Photo w h) = w"
| "rasterWidth (Cropped img r w h) = nat \<lfloor>w\<rfloor>"
| "rasterWidth (Stitched w h draws) = nat \<lfloor>w\<rfloor>"
| "rasterWidth (Generated w h) = w"

fun rasterHeight :: "Raster \<Rightarrow> nat" where
  "rasterHeight (Photo w h) = h"
| "rasterHeight (Cropped img r w h) = nat \<lfloor>h\<rfloor>"
| "rasterHeight (Stitched w h draws) = nat \<lfloor>h\<rfloor>"
| "rasterHeight (Generated w h) = h"

text \<open>
  An arithmetic without rounding, for the platform of the examples: the operations on
  finite numbers are those of the reals, the square root of a negative number is NaN, and
  an operand that is not finite gives NaN.
\<close>

fun exact1 :: "(real \<Rightarrow> real) \<Rightarrow> JSNumber \<Rightarrow> JSNumber" where
  "exact1 f (Finite a) = Finite (f a)"
| "exact1 f a = NaN"

fun exact2 :: "(real \<Rightarrow> real \<Rightarrow> real) \<Rightarrow> JSNumber \<Rightarrow> JSNumber \<Rightarrow> JSNumber" where
  "exact2 f (Finite a) (Finite b) = Finite (f a b)"
| "exact2 f a b = NaN"

fun exactSqrt :: "JSNumber \<Rightarrow> JSNumber" where
  "exactSqrt (Finite a) = (if a < 0 then NaN else Finite (sqrt a))"
| "exactSqrt a = NaN"

fun exactDiv :: "JSNumber \<Rightarrow> JSNumber \<Rightarrow> JSNumber" where
  "exactDiv (Finite a) (Finite b) =
     (if b \<noteq> 0 then Finite (a / b)
      else if 0 < a then PosInfinity else if a < 0 then NegInfinity else NaN)"
| "exactDiv a b = NaN"

definition exactAtan2 :: "real \<Rightarrow> real \<Rightarrow> real" where
  "exactAtan2 y x =
     (if 0 < x then arctan (y / x)
      else if x < 0 then (if 0 \<le> y then arctan (y / x) + pi else arctan (y / x) - pi)
      else if 0 < y then pi / 2
      else if y < 0 then - (pi / 2)
      else 0)"

definition exactArithmetic :: Float64 where
  "exactArithmetic =
     \<lparr>f64_add = exact2 (+), f64_sub = exact2 (-), f64_mul = exact2 (*),
      f64_div = exactDiv, Math_PI = Finite pi,
      Math_sin = exact1 sin, Math_cos = exact1 cos, Math_sqrt = exactSqrt,
      Math_atan2 = exact2 exactAtan2\<rparr>"

definition examplePlatform :: "Raster Platform" where
  "examplePlatform =
     \<lparr>naturalWidth = rasterWidth,
      naturalHeight = rasterHeight,
      cropImage = (\<lambda>img r w h smoothing. Cropped img r w h),
      context2d = True,
      canvasToDataURL = Stitched,
      float64 = exactArithmetic\<rparr>"

text \<open>
  A worked run: the default image (512 by 512 pixels, one tile) is loaded, the user zooms
  to 2, the inference timer fires on a canvas of 1000 by 800 pixels, the image service
  fails, and the dissolve animation ends.
\<close>

definition exampleView :: ViewState where
  "exampleView = \<lparr>pan = \<lparr>pt_x = 0, pt_y = 0\<rparr>, zoom = 2\<rparr>"

definition exampleCanvas :: Rect where
  "exampleCanvas = \<lparr>rect_x = 0, rect_y = 0, rect_w = 1000, rect_h = 800\<rparr>"

definition exampleLoaded :: "Raster App" where
  "exampleLoaded =
     run examplePlatform [InitialImageLoaded (Photo 512 512), ViewChanged exampleView] mounted"

definition exampleEnhancing :: "Raster App" where
  "exampleEnhancing =
     dispatch examplePlatform
       (InferenceTimerFired exampleLoaded (Some exampleCanvas) (1000, 800)) exampleLoaded"

definition exampleEnhanced :: "Raster App" where
  "exampleEnhanced =
     dispatch examplePlatform (SelectionAnimationComplete GenerationRaises) exampleEnhancing"

definition exampleStitched :: Raster where
  "exampleStitched =
     Stitched 512 512
       [(Cropped (Photo 512 512) \<lparr>rect_x = 0, rect_y = 0, rect_w = 512, rect_h = 512\<rparr> 512 512,
         0, 0)]"

definition exampleResult :: "Raster RegionImage" where
  "exampleResult =
     \<lparr>src = exampleStitched,
      worldRect = \<lparr>rect_x = 0, rect_y = 0, rect_w = 512, rect_h = 512\<rparr>\<rparr>"

definition exampleCompleted :: "Raster App" where
  "exampleCompleted = dispatch examplePlatform PixelDissolveComplete exampleEnhanced"

text \<open>A world of 4 by 4 tiles.\<close>

definition exampleBigWorld :: "Raster App" where
  "exampleBigWorld =
     tileizeImage examplePlatform
       \<lparr>cap_id = CaptureDefault, cap_type = EQUIRECTANGULAR, cap_image = Photo 2048 2048,
        cap_camera = defaultCamera, cap_gps = None, cap_locationStatus = None\<rparr>
       initialApp"

text \<open>
  The state of the worked run in which handleNewCapture waits for the scene comparison,
  when a capture without GPS coordinates arrives in the state exampleLoaded.
\<close>

definition exampleAnalyzing :: "Raster App" where
  "exampleAnalyzing = exampleLoaded\<lparr>appState := ANALYZING\<rparr>"

text \<open>
  A second run in the same world, with the view panned to the right so that it reaches
  past the right edge of the world: at zoom 2 and pan.x = -600 the view is the world
  rectangle from x = 300 to x = 800, and the world is 512 wide.
\<close>

definition exampleEdgeView :: ViewState where
  "exampleEdgeView = \<lparr>pan = \<lparr>pt_x = - 600, pt_y = 0\<rparr>, zoom = 2\<rparr>"

definition exampleEdgeLoaded :: "Raster App" where
  "exampleEdgeLoaded =
     run examplePlatform [InitialImageLoaded (Photo 512 512), ViewChanged exampleEdgeView] mounted"

definition exampleEdgeEnhanced :: "Raster App" where
  "exampleEdgeEnhanced =
     run examplePlatform
       [InferenceTimerFired exampleEdgeLoaded (Some exampleCanvas) (1000, 800),
        SelectionAnimationComplete GenerationRaises]
       exampleEdgeLoaded"

definition exampleEdgeStitched :: Raster where
  "exampleEdgeStitched =
     Stitched 1024 512
       [(Cropped (Photo 512 512) \<lparr>rect_x = 0, rect_y = 0, rect_w = 512, rect_h = 512\<rparr> 512 512,
         0, 0)]"

definition exampleEdgeResult :: "Raster RegionImage" where
  "exampleEdgeResult =
     \<lparr>src = exampleEdgeStitched,
      worldRect = \<lparr>rect_x = 0, rect_y = 0, rect_w = 1024, rect_h = 512\<rparr>\<rparr>"

definition exampleEdgeCompleted :: "Raster App" where
  "exampleEdgeCompleted = dispatch examplePlatform PixelDissolveComplete exampleEdgeEnhanced"

section \<open>Viewport properties\<close>

lemma handleWheel_zoom_range:
  "1 / 10 \<le> zoom vs \<Longrightarrow> zoom vs \<le> 50 \<Longrightarrow>
   1 / 10 \<le> zoom (handleWheel env deltaY client vs) \<and> zoom (handleWheel env deltaY client vs) \<le> 50"
  by (auto simp add: handleWheel_def Let_def max_def min_def split: option.splits)

lemma handleZoomIn_zoom_range:
  "1 / 10 \<le> zoom vs \<Longrightarrow> zoom vs \<le> 50 \<Longrightarrow>
   1 / 10 \<le> zoom (handleZoomIn vs) \<and> zoom (handleZoomIn vs) \<le> 50"
  by (auto simp add: handleZoomIn_def min_def)

lemma handleZoomOut_zoom_range:
  "1 / 10 \<le> zoom vs \<Longrightarrow> zoom vs \<le> 50 \<Longrightarrow>
   1 / 10 \<le> zoom (handleZoomOut vs) \<and> zoom (handleZoomOut vs) \<le> 50"
  by (auto simp add: handleZoomOut_def max_def)

lemma applyZoomOp_zoom_range:
  "1 / 10 \<le> zoom vs \<Longrightarrow> zoom vs \<le> 50 \<Longrightarrow>
   1 / 10 \<le> zoom (applyZoomOp op vs) \<and> zoom (applyZoomOp op vs) \<le> 50"
  by (cases op) (simp_all only: applyZoomOp.simps handleWheel_zoom_range
      handleZoomIn_zoom_range handleZoomOut_zoom_range)

text \<open>
  C8.  Starting from a zoom in [0.1, 50], the zoom after every operation of any sequence
  of wheel ticks and zoom-button clicks is in [0.1, 50].
\<close>

theorem zoom_stays_in_range:
  assumes "1 / 10 \<le> zoom vs" and "zoom vs \<le> 50"
  shows "\<forall>vs' \<in> set (zoomTrace vs ops). 1 / 10 \<le> zoom vs' \<and> zoom vs' \<le> 50"
  using assms
proof (induction ops arbitrary: vs)
  case Nil
  then show ?case by simp
next
  case (Cons op ops)
  have step: "1 / 10 \<le> zoom (applyZoomOp op vs) \<and> zoom (applyZoomOp op vs) \<le> 50"
    using Cons.prems by (rule applyZoomOp_zoom_range)
  with Cons.IH [of "applyZoomOp op vs"] show ?case by simp
qed

theorem zoom_stays_in_range_witness:
  "1 / 10 \<le> zoom \<lparr>pan = \<lparr>pt_x = 0, pt_y = 0\<rparr>, zoom = 50\<rparr>
   \<and> zoom \<lparr>pan = \<lparr>pt_x = 0, pt_y = 0\<rparr>, zoom = 50\<rparr> \<le> 50
   \<and> list_all (\<lambda>vs'. 1 / 10 \<le> zoom vs' \<and> zoom vs' \<le> 50)
        (zoomTrace \<lparr>pan = \<lparr>pt_x = 0, pt_y = 0\<rparr>, zoom = 50\<rparr>
          [Wheel \<lparr>isBusy = False, worldHeight = 1024,
                  canvas = Some \<lparr>rect_x = 0, rect_y = 0, rect_w = 1000, rect_h = 800\<rparr>\<rparr>
             (-120) \<lparr>pt_x = 500, pt_y = 400\<rparr>,
           ZoomInButton, ZoomOutButton])"
proof -
  have lo: "1 / 10 \<le> zoom \<lparr>pan = \<lparr>pt_x = 0, pt_y = 0\<rparr>, zoom = 50\<rparr>" by simp
  have hi: "zoom \<lparr>pan = \<lparr>pt_x = 0, pt_y = 0\<rparr>, zoom = 50\<rparr> \<le> 50" by simp
  from lo hi zoom_stays_in_range [OF lo hi] show ?thesis
    unfolding list_all_iff by blast
qed

subsection \<open>Column wraparound\<close>

lemma js_rem_nonneg: "0 \<le> a \<Longrightarrow> 0 < n \<Longrightarrow> js_rem a n = a mod n"
  by (cases "a = 0") (simp_all add: js_rem_def)

lemma js_rem_neg: "a < 0 \<Longrightarrow> 0 < n \<Longrightarrow> js_rem a n = - ((- a) mod n)"
  by (simp add: js_rem_def)

lemma wrappedX_mod: 
  assumes "0 < n" shows "wrappedX n c = c mod n"
proof (cases "0 \<le> c")
  case True
  then have "js_rem c n = c mod n" using assms by (rule js_rem_nonneg)
  moreover have "0 \<le> c mod n + n" using assms by (simp add: add_nonneg_nonneg)
  ultimately show ?thesis using assms by (simp add: wrappedX_def js_rem_nonneg)
next
  case False
  then have c: "c < 0" by simp
  have r: "js_rem c n = - ((- c) mod n)" using c assms by (rule js_rem_neg)
  have "(- c) mod n < n" using assms by simp
  then have "0 \<le> - ((- c) mod n) + n" by simp
  then have "js_rem (- ((- c) mod n) + n) n = (- ((- c) mod n) + n) mod n"
    using assms by (rule js_rem_nonneg)
  also have "\<dots> = (- ((- c) mod n)) mod n" by simp
  also have "\<dots> = (- (- c)) mod n" by (rule mod_minus_eq)
  finally show ?thesis by (simp add: wrappedX_def r)
qed

lemma numWorldTiles_pos: "0 < W \<Longrightarrow> 0 < T \<Longrightarrow> 0 < numWorldTiles W T"
  by (simp add: numWorldTiles_def)

text \<open>
  C9.  The tile lookup of draw wraps columns modulo the column count: looking up column c
  gives the same result as looking up ((c mod numCols) + numCols) mod numCols, with
  JavaScript's remainder as in the code or with the mathematical one, and column numCols
  gives the same result as column 0.
\<close>

theorem tileAt_wraps:
  assumes "0 < tileSize"
  shows "tileAt tileMap worldWidth tileSize c r =
           tileAt tileMap worldWidth tileSize
             (wrappedX (numWorldTiles worldWidth tileSize) c) r
       \<and> tileAt tileMap worldWidth tileSize c r =
           tileAt tileMap worldWidth tileSize
             (((c mod numWorldTiles worldWidth tileSize) + numWorldTiles worldWidth tileSize)
                mod numWorldTiles worldWidth tileSize) r
       \<and> tileAt tileMap worldWidth tileSize (numWorldTiles worldWidth tileSize) r =
           tileAt tileMap worldWidth tileSize 0 r"
proof (cases "worldWidth = 0")
  case True
  then show ?thesis by (simp add: tileAt_def)
next
  case False
  then have "0 < numWorldTiles worldWidth tileSize"
    using assms by (simp add: numWorldTiles_pos)
  then show ?thesis by (simp add: tileAt_def wrappedX_mod)
qed


theorem tileAt_wraps_witness:
  "(0::nat) < 512 \<and>
   tileAt [(0, 0) \<mapsto> ''a'', (1, 0) \<mapsto> ''b'', (2, 0) \<mapsto> ''c''] 1300 512 (-1) 0 = Some ''c'' \<and>
   tileAt [(0, 0) \<mapsto> ''a'', (1, 0) \<mapsto> ''b'', (2, 0) \<mapsto> ''c''] 1300 512 3 0 = Some ''a'' \<and>
   tileAt [(0, 0) \<mapsto> ''a'', (1, 0) \<mapsto> ''b'', (2, 0) \<mapsto> ''c''] 1300 512 0 0 = Some ''a''"
proof -
  have T: "(0::nat) < 512" by simp
  have n: "numWorldTiles 1300 512 = 3" by (simp add: numWorldTiles_def)
  have w1: "wrappedX 3 (- 1) = 2" by (simp add: wrappedX_def js_rem_def)
  note w = tileAt_wraps [OF T, of "[(0, 0) \<mapsto> ''a'', (1, 0) \<mapsto> ''b'', (2, 0) \<mapsto> ''c'']" 1300]
  have a: "tileAt [(0, 0) \<mapsto> ''a'', (1, 0) \<mapsto> ''b'', (2, 0) \<mapsto> ''c''] 1300 512 0 0 = Some ''a''"
    by (simp add: tileAt_def n wrappedX_def js_rem_def)
  have c: "tileAt [(0, 0) \<mapsto> ''a'', (1, 0) \<mapsto> ''b'', (2, 0) \<mapsto> ''c''] 1300 512 2 0 = Some ''c''"
    by (simp add: tileAt_def n wrappedX_def js_rem_def)
  from w [of "-1" 0] have "tileAt [(0, 0) \<mapsto> ''a'', (1, 0) \<mapsto> ''b'', (2, 0) \<mapsto> ''c''] 1300 512 (-1) 0 = Some ''c''"
    by (simp add: n c w1)
  moreover from w [of 0 0] have "tileAt [(0, 0) \<mapsto> ''a'', (1, 0) \<mapsto> ''b'', (2, 0) \<mapsto> ''c''] 1300 512 3 0 = Some ''a''"
    by (simp add: n a)
  ultimately show ?thesis using a by simp
qed

section \<open>Tileization\<close>

lemma fold_tileizeCell:
  "fold (tileizeCell P T img r) cs m (a, b) =
     (if b = r \<and> a \<in> set cs
         \<and> 0 < rect_w (cropRectAt T (naturalWidth P img) (naturalHeight P img) a r)
         \<and> 0 < rect_h (cropRectAt T (naturalWidth P img) (naturalHeight P img) a r)
      then Some \<lparr>tile_image = cropImage P img
                    (cropRectAt T (naturalWidth P img) (naturalHeight P img) a r)
                    (rect_w (cropRectAt T (naturalWidth P img) (naturalHeight P img) a r))
                    (rect_h (cropRectAt T (naturalWidth P img) (naturalHeight P img) a r)) False,
                 isEnhanced = False\<rparr>
      else m (a, b))"
proof (induction cs arbitrary: m)
  case Nil
  then show ?case by simp
next
  case (Cons c cs)
  show ?case
    by (simp add: Cons.IH) (auto simp add: tileizeCell_def Let_def)
qed

lemma fold_fold_tileizeCell:
  "fold (\<lambda>r. fold (tileizeCell P T img r) cs) rs m (a, b) =
     (if b \<in> set rs \<and> a \<in> set cs
         \<and> 0 < rect_w (cropRectAt T (naturalWidth P img) (naturalHeight P img) a b)
         \<and> 0 < rect_h (cropRectAt T (naturalWidth P img) (naturalHeight P img) a b)
      then Some \<lparr>tile_image = cropImage P img
                    (cropRectAt T (naturalWidth P img) (naturalHeight P img) a b)
                    (rect_w (cropRectAt T (naturalWidth P img) (naturalHeight P img) a b))
                    (rect_h (cropRectAt T (naturalWidth P img) (naturalHeight P img) a b)) False,
                 isEnhanced = False\<rparr>
      else m (a, b))"
proof (induction rs arbitrary: m)
  case Nil
  then show ?case by simp
next
  case (Cons r rs)
  show ?case
    by (auto simp add: Cons.IH fold_tileizeCell)
qed

lemma numWorldTiles_nonneg: "0 \<le> numWorldTiles W T"
proof -
  have "(0::real) \<le> real W / real T" by simp
  then have "(0::int) \<le> \<lceil>real W / real T\<rceil>" by (simp only: zero_le_ceiling)
  then show ?thesis by (simp only: numWorldTiles_def)
qed

lemma less_numWorldTiles_iff:
  assumes "0 < T"
  shows "c < numWorldTiles W T \<longleftrightarrow> c * int T < int W"
proof -
  have "c < numWorldTiles W T \<longleftrightarrow> real_of_int c < real W / real T"
    by (simp add: numWorldTiles_def less_ceiling_iff)
  also have "\<dots> \<longleftrightarrow> real_of_int c * real T < real W"
    using assms by (simp add: pos_less_divide_eq)
  also have "\<dots> \<longleftrightarrow> real_of_int (c * int T) < real_of_int (int W)"
    by simp
  also have "\<dots> \<longleftrightarrow> c * int T < int W"
    by (rule of_int_less_iff)
  finally show ?thesis .
qed

lemma cropRect_w_pos_iff:
  assumes "0 < T"
  shows "0 < rect_w (cropRectAt T W H c r) \<longleftrightarrow> c < numWorldTiles W T"
  using assms by (simp add: cropRectAt_def less_numWorldTiles_iff)

lemma cropRect_h_pos_iff:
  assumes "0 < T"
  shows "0 < rect_h (cropRectAt T W H c r) \<longleftrightarrow> r < numWorldTiles H T"
  using assms by (simp add: cropRectAt_def less_numWorldTiles_iff)

lemma tileize_lookup:
  assumes "0 < T"
  shows "tileize P T img (c, r) =
     (if 0 \<le> c \<and> c < numWorldTiles (naturalWidth P img) T
         \<and> 0 \<le> r \<and> r < numWorldTiles (naturalHeight P img) T
      then Some \<lparr>tile_image = cropImage P img
                    (cropRectAt T (naturalWidth P img) (naturalHeight P img) c r)
                    (rect_w (cropRectAt T (naturalWidth P img) (naturalHeight P img) c r))
                    (rect_h (cropRectAt T (naturalWidth P img) (naturalHeight P img) c r)) False,
                 isEnhanced = False\<rparr>
      else None)"
  unfolding tileize_def Let_def fold_fold_tileizeCell
  using assms by (auto simp add: cropRect_w_pos_iff cropRect_h_pos_iff)

lemma dom_tileize:
  assumes "0 < T"
  shows "dom (tileize P T img) =
     {0 ..< numWorldTiles (naturalWidth P img) T} \<times> {0 ..< numWorldTiles (naturalHeight P img) T}"
  using assms by (auto simp add: dom_def tileize_lookup split: if_splits)

lemma card_dom_tileize:
  assumes "0 < T"
  shows "int (card (dom (tileize P T img))) =
     numWorldTiles (naturalWidth P img) T * numWorldTiles (naturalHeight P img) T"
proof -
  have "0 \<le> numWorldTiles (naturalWidth P img) T" "0 \<le> numWorldTiles (naturalHeight P img) T"
    by (simp_all add: numWorldTiles_nonneg)
  then show ?thesis
    using assms by (simp add: dom_tileize card_cartesian_product)
qed

lemma inRect_cropRectAt:
  "inRect (cropRectAt T W H c r) px py \<longleftrightarrow>
     c * int T \<le> int px \<and> int px < c * int T + min (int T) (int W - c * int T) \<and>
     r * int T \<le> int py \<and> int py < r * int T + min (int T) (int H - r * int T)"
proof -
  have x: "real px = real_of_int (int px)" and y: "real py = real_of_int (int py)"
    by simp_all
  show ?thesis
    unfolding inRect_def cropRectAt_def x y
    by (simp only: Rect.simps of_int_add [symmetric] of_int_le_iff of_int_less_iff)
qed

lemma tile_index_unique:
  fixes c :: int
  assumes "0 < T" "c * int T \<le> int p" "int p < c * int T + min (int T) (int W - c * int T)"
  shows "c = int (p div T)"
proof -
  have "int p < c * int T + int T" using assms(3) by simp
  then have l: "int p - c * int T < int T" by simp
  have n: "0 \<le> int p - c * int T" using assms(2) by simp
  have e: "int p = int T * c + (int p - c * int T)" by simp
  have "int p div int T = c"
    using e n l by (rule int_div_pos_eq)
  then show ?thesis by (simp add: zdiv_int)
qed

lemma tile_index_covers:
  assumes "0 < T" "p < W"
  shows "int (p div T) * int T \<le> int p
       \<and> int p < int (p div T) * int T + min (int T) (int W - int (p div T) * int T)"
proof -
  have a: "(p div T) * T \<le> p" by simp
  have "p < (p div T) * T + T" using assms(1)
    by (metis add.commute dividend_less_div_times mult.commute)
  then have b: "int p < int (p div T) * int T + int T"
    by (metis of_nat_add of_nat_less_iff of_nat_mult)
  have c: "int (p div T) * int T \<le> int p" using a
    by (metis of_nat_le_iff of_nat_mult)
  show ?thesis using b c assms(2) by (simp add: min_def)
qed

lemma tileize_covers_once:
  assumes T: "0 < T" and px: "px < naturalWidth P img" and py: "py < naturalHeight P img"
  shows "\<exists>!k. k \<in> dom (tileize P T img) \<and>
           inRect (cropRectAt T (naturalWidth P img) (naturalHeight P img) (fst k) (snd k)) px py"
proof (rule ex1I [of _ "(int (px div T), int (py div T))"])
  have cx: "int (px div T) * int T \<le> int px
       \<and> int px < int (px div T) * int T + min (int T) (int (naturalWidth P img) - int (px div T) * int T)"
    using T px by (rule tile_index_covers)
  have cy: "int (py div T) * int T \<le> int py
       \<and> int py < int (py div T) * int T + min (int T) (int (naturalHeight P img) - int (py div T) * int T)"
    using T py by (rule tile_index_covers)
  have "int (px div T) * int T < int (naturalWidth P img)" using cx px by simp
  then have dx: "int (px div T) < numWorldTiles (naturalWidth P img) T"
    using T by (simp add: less_numWorldTiles_iff)
  have "int (py div T) * int T < int (naturalHeight P img)" using cy py by simp
  then have dy: "int (py div T) < numWorldTiles (naturalHeight P img) T"
    using T by (simp add: less_numWorldTiles_iff)
  show "(int (px div T), int (py div T)) \<in> dom (tileize P T img) \<and>
        inRect (cropRectAt T (naturalWidth P img) (naturalHeight P img)
          (fst (int (px div T), int (py div T))) (snd (int (px div T), int (py div T)))) px py"
    using cx cy dx dy T by (simp add: dom_tileize inRect_cropRectAt)
next
  fix k
  assume k: "k \<in> dom (tileize P T img) \<and>
           inRect (cropRectAt T (naturalWidth P img) (naturalHeight P img) (fst k) (snd k)) px py"
  then have "fst k = int (px div T)" "snd k = int (py div T)"
    using T by (auto simp add: inRect_cropRectAt intro: tile_index_unique)
  then show "k = (int (px div T), int (py div T))"
    by (simp add: prod_eq_iff)
qed

lemma tileize_rect_inside:
  assumes "0 < T" and "inRect (cropRectAt T W H c r) px py"
  shows "px < W \<and> py < H"
  using assms by (auto simp add: inRect_cropRectAt min_def split: if_splits)

lemma tileize_zero_area:
  assumes "0 < T" and "naturalWidth P img = 0 \<or> naturalHeight P img = 0"
  shows "tileize P T img = Map.empty"
proof (rule ext)
  fix k
  have "numWorldTiles (naturalWidth P img) T = 0 \<or> numWorldTiles (naturalHeight P img) T = 0"
    using assms(2) by (auto simp add: numWorldTiles_def)
  then show "tileize P T img k = None"
    using assms(1) by (cases k) (auto simp add: tileize_lookup)
qed

lemma TILE_SIZE_pos: "0 < TILE_SIZE"
  by (simp add: TILE_SIZE_def)

text \<open>
  C3 (as amended).  For an image of W by H pixels and a tile size T > 0, tileize stores
  exactly ceil(W/T) * ceil(H/T) tiles, keyed (c, r) with 0 <= c < ceil(W/T) and
  0 <= r < ceil(H/T); tile (c, r) is the crop of the rectangle at (c*T, r*T) of size
  (min(T, W - c*T), min(T, H - r*T)); every pixel of [0,W) x [0,H) lies in exactly one of
  these rectangles and the rectangles lie inside the image; an image with W = 0 or H = 0
  yields the empty tile map.  tileizeImage stores tileize at TILE_SIZE and records the
  image's own size W x H as the world size.
\<close>

theorem tileize_partitions_image:
  assumes "0 < tileSize"
  shows "dom (tileize P tileSize img) =
           {0 ..< numWorldTiles (naturalWidth P img) tileSize}
           \<times> {0 ..< numWorldTiles (naturalHeight P img) tileSize}
       \<and> int (card (dom (tileize P tileSize img))) =
           numWorldTiles (naturalWidth P img) tileSize * numWorldTiles (naturalHeight P img) tileSize
       \<and> (\<forall>c r. (c, r) \<in> dom (tileize P tileSize img) \<longrightarrow>
            cropRectAt tileSize (naturalWidth P img) (naturalHeight P img) c r =
              \<lparr>rect_x = real_of_int (c * int tileSize),
               rect_y = real_of_int (r * int tileSize),
               rect_w = real_of_int (min (int tileSize) (int (naturalWidth P img) - c * int tileSize)),
               rect_h = real_of_int (min (int tileSize) (int (naturalHeight P img) - r * int tileSize))\<rparr>
            \<and> tileize P tileSize img (c, r) =
              Some \<lparr>tile_image = cropImage P img
                      (cropRectAt tileSize (naturalWidth P img) (naturalHeight P img) c r)
                      (rect_w (cropRectAt tileSize (naturalWidth P img) (naturalHeight P img) c r))
                      (rect_h (cropRectAt tileSize (naturalWidth P img) (naturalHeight P img) c r))
                      False,
                    isEnhanced = False\<rparr>)
       \<and> (\<forall>px py. px < naturalWidth P img \<and> py < naturalHeight P img \<longrightarrow>
            (\<exists>!k. k \<in> dom (tileize P tileSize img) \<and>
               inRect (cropRectAt tileSize (naturalWidth P img) (naturalHeight P img) (fst k) (snd k))
                 px py))
       \<and> (\<forall>c r px py.
            inRect (cropRectAt tileSize (naturalWidth P img) (naturalHeight P img) c r) px py \<longrightarrow>
            px < naturalWidth P img \<and> py < naturalHeight P img)
       \<and> (naturalWidth P img = 0 \<or> naturalHeight P img = 0 \<longrightarrow>
            tileize P tileSize img = Map.empty)
       \<and> tiles (tileizeImage P capture s) = tileize P TILE_SIZE (cap_image capture)
       \<and> worldSize (tileizeImage P capture s) =
            \<lparr>width = naturalWidth P (cap_image capture),
             height = naturalHeight P (cap_image capture)\<rparr>"
proof -
  have A: "dom (tileize P tileSize img) =
           {0 ..< numWorldTiles (naturalWidth P img) tileSize}
           \<times> {0 ..< numWorldTiles (naturalHeight P img) tileSize}"
    using assms by (rule dom_tileize)
  have B: "int (card (dom (tileize P tileSize img))) =
           numWorldTiles (naturalWidth P img) tileSize * numWorldTiles (naturalHeight P img) tileSize"
    using assms by (rule card_dom_tileize)
  have C: "\<forall>c r. (c, r) \<in> dom (tileize P tileSize img) \<longrightarrow>
            cropRectAt tileSize (naturalWidth P img) (naturalHeight P img) c r =
              \<lparr>rect_x = real_of_int (c * int tileSize),
               rect_y = real_of_int (r * int tileSize),
               rect_w = real_of_int (min (int tileSize) (int (naturalWidth P img) - c * int tileSize)),
               rect_h = real_of_int (min (int tileSize) (int (naturalHeight P img) - r * int tileSize))\<rparr>
            \<and> tileize P tileSize img (c, r) =
              Some \<lparr>tile_image = cropImage P img
                      (cropRectAt tileSize (naturalWidth P img) (naturalHeight P img) c r)
                      (rect_w (cropRectAt tileSize (naturalWidth P img) (naturalHeight P img) c r))
                      (rect_h (cropRectAt tileSize (naturalWidth P img) (naturalHeight P img) c r))
                      False,
                    isEnhanced = False\<rparr>"
  proof (intro allI impI conjI)
    fix c r
    show "cropRectAt tileSize (naturalWidth P img) (naturalHeight P img) c r =
              \<lparr>rect_x = real_of_int (c * int tileSize),
               rect_y = real_of_int (r * int tileSize),
               rect_w = real_of_int (min (int tileSize) (int (naturalWidth P img) - c * int tileSize)),
               rect_h = real_of_int (min (int tileSize) (int (naturalHeight P img) - r * int tileSize))\<rparr>"
      by (simp only: cropRectAt_def)
  next
    fix c r
    assume "(c, r) \<in> dom (tileize P tileSize img)"
    then have "tileize P tileSize img (c, r) \<noteq> None" by (simp add: dom_def)
    then show "tileize P tileSize img (c, r) =
              Some \<lparr>tile_image = cropImage P img
                      (cropRectAt tileSize (naturalWidth P img) (naturalHeight P img) c r)
                      (rect_w (cropRectAt tileSize (naturalWidth P img) (naturalHeight P img) c r))
                      (rect_h (cropRectAt tileSize (naturalWidth P img) (naturalHeight P img) c r))
                      False,
                    isEnhanced = False\<rparr>"
      unfolding tileize_lookup [OF assms] by (simp split: if_splits)
  qed
  have D: "\<forall>px py. px < naturalWidth P img \<and> py < naturalHeight P img \<longrightarrow>
            (\<exists>!k. k \<in> dom (tileize P tileSize img) \<and>
               inRect (cropRectAt tileSize (naturalWidth P img) (naturalHeight P img) (fst k) (snd k))
                 px py)"
  proof (intro allI impI)
    fix px py
    assume "px < naturalWidth P img \<and> py < naturalHeight P img"
    then have "px < naturalWidth P img" and "py < naturalHeight P img" by simp_all
    with assms show "\<exists>!k. k \<in> dom (tileize P tileSize img) \<and>
               inRect (cropRectAt tileSize (naturalWidth P img) (naturalHeight P img) (fst k) (snd k))
                 px py"
      by (rule tileize_covers_once)
  qed
  have E: "\<forall>c r px py.
            inRect (cropRectAt tileSize (naturalWidth P img) (naturalHeight P img) c r) px py \<longrightarrow>
            px < naturalWidth P img \<and> py < naturalHeight P img"
    using assms by (blast dest: tileize_rect_inside)
  have F: "naturalWidth P img = 0 \<or> naturalHeight P img = 0 \<longrightarrow>
            tileize P tileSize img = Map.empty"
    using assms by (blast intro: tileize_zero_area)
  have G: "tiles (tileizeImage P capture s) = tileize P TILE_SIZE (cap_image capture)"
    by (simp add: tileizeImage_def Let_def)
  have H: "worldSize (tileizeImage P capture s) =
            \<lparr>width = naturalWidth P (cap_image capture),
             height = naturalHeight P (cap_image capture)\<rparr>"
    by (simp add: tileizeImage_def Let_def)
  from A B C D E F G H show ?thesis by (intro conjI)
qed

lemma numWorldTiles_1300: "numWorldTiles 1300 512 = 3"
  by (simp add: numWorldTiles_def)

lemma numWorldTiles_700: "numWorldTiles 700 512 = 2"
  by (simp add: numWorldTiles_def)

theorem tileize_partitions_image_witness:
  "(0::nat) < 512
   \<and> dom (tileize examplePlatform 512 (Photo 1300 700)) = {0 ..< 3} \<times> {0 ..< 2}
   \<and> card (dom (tileize examplePlatform 512 (Photo 1300 700))) = 6
   \<and> tileize examplePlatform 512 (Photo 1300 700) (2, 1) =
       Some \<lparr>tile_image =
               Cropped (Photo 1300 700)
                 \<lparr>rect_x = 1024, rect_y = 512, rect_w = 276, rect_h = 188\<rparr> 276 188,
             isEnhanced = False\<rparr>
   \<and> (\<exists>!k. k \<in> dom (tileize examplePlatform 512 (Photo 1300 700)) \<and>
         inRect (cropRectAt 512 1300 700 (fst k) (snd k)) 1299 699)"
proof -
  have T: "(0::nat) < 512" by simp
  have W: "naturalWidth examplePlatform (Photo 1300 700) = 1300"
    and H: "naturalHeight examplePlatform (Photo 1300 700) = 700"
    by (simp_all add: examplePlatform_def)
  note inst = tileize_partitions_image [OF T, of examplePlatform "Photo 1300 700", unfolded W H
      numWorldTiles_1300 numWorldTiles_700]
  have d: "dom (tileize examplePlatform 512 (Photo 1300 700)) = {0 ..< 3} \<times> {0 ..< 2}"
    using inst by blast
  have "int (card (dom (tileize examplePlatform 512 (Photo 1300 700)))) = 3 * 2"
    using inst by blast
  then have c: "card (dom (tileize examplePlatform 512 (Photo 1300 700))) = 6"
    by simp
  have "(2, 1) \<in> dom (tileize examplePlatform 512 (Photo 1300 700))"
    unfolding d by simp
  then have "tileize examplePlatform 512 (Photo 1300 700) (2, 1) =
              Some \<lparr>tile_image = cropImage examplePlatform (Photo 1300 700)
                      (cropRectAt 512 1300 700 2 1)
                      (rect_w (cropRectAt 512 1300 700 2 1))
                      (rect_h (cropRectAt 512 1300 700 2 1))
                      False,
                    isEnhanced = False\<rparr>"
    using inst by blast
  then have t: "tileize examplePlatform 512 (Photo 1300 700) (2, 1) =
       Some \<lparr>tile_image =
               Cropped (Photo 1300 700)
                 \<lparr>rect_x = 1024, rect_y = 512, rect_w = 276, rect_h = 188\<rparr> 276 188,
             isEnhanced = False\<rparr>"
    by (simp add: cropRectAt_def examplePlatform_def)
  have "(1299::nat) < 1300 \<and> (699::nat) < 700" by simp
  then have u: "\<exists>!k. k \<in> dom (tileize examplePlatform 512 (Photo 1300 700)) \<and>
         inRect (cropRectAt 512 1300 700 (fst k) (snd k)) 1299 699"
    using inst by blast
  from T d c t u show ?thesis by (intro conjI)
qed

text \<open>
  The world size recorded for a zero-area image is the image's size, not 0 x 0: an image
  of 0 by 5 pixels gives no tiles and the world size 0 x 5.
\<close>

theorem tileize_zero_area_counterexample:
  "naturalWidth examplePlatform (Photo 0 5) = 0
   \<and> tiles (tileizeImage examplePlatform
        \<lparr>cap_id = CaptureDefault, cap_type = EQUIRECTANGULAR, cap_image = Photo 0 5,
         cap_camera = defaultCamera, cap_gps = None, cap_locationStatus = None\<rparr>
        initialApp) (0, 0) = None
   \<and> worldSize (tileizeImage examplePlatform
        \<lparr>cap_id = CaptureDefault, cap_type = EQUIRECTANGULAR, cap_image = Photo 0 5,
         cap_camera = defaultCamera, cap_gps = None, cap_locationStatus = None\<rparr>
        initialApp) = \<lparr>width = 0, height = 5\<rparr>
   \<and> worldSize (tileizeImage examplePlatform
        \<lparr>cap_id = CaptureDefault, cap_type = EQUIRECTANGULAR, cap_image = Photo 0 5,
         cap_camera = defaultCamera, cap_gps = None, cap_locationStatus = None\<rparr>
        initialApp) \<noteq> \<lparr>width = 0, height = 0\<rparr>"
proof -
  have w: "naturalWidth examplePlatform (Photo 0 5) = 0"
    by (simp add: examplePlatform_def)
  have h: "naturalHeight examplePlatform (Photo 0 5) = 5"
    by (simp add: examplePlatform_def)
  have "tileize examplePlatform TILE_SIZE (Photo 0 5) = Map.empty"
    using TILE_SIZE_pos w by (simp add: tileize_zero_area)
  then show ?thesis
    by (simp add: tileizeImage_def Let_def w h)
qed

section \<open>Retiling and the merge\<close>

lemma fold_retileCell:
  "fold (retileCell P e wr r) cs m (a, b) =
     (if b = r \<and> a \<in> set cs
      then Some \<lparr>tile_image = cropImage P e
                    \<lparr>rect_x = real_of_int (a * int TILE_SIZE) - rect_x wr,
                     rect_y = real_of_int (b * int TILE_SIZE) - rect_y wr,
                     rect_w = real TILE_SIZE, rect_h = real TILE_SIZE\<rparr>
                    (real TILE_SIZE) (real TILE_SIZE) False,
                 isEnhanced = True\<rparr>
      else m (a, b))"
proof (induction cs arbitrary: m)
  case Nil
  then show ?case by simp
next
  case (Cons c cs)
  show ?case
    by (simp add: Cons.IH) (auto simp add: retileCell_def Let_def)
qed

lemma fold_fold_retileCell:
  "fold (\<lambda>r. fold (retileCell P e wr r) cs) rs m (a, b) =
     (if b \<in> set rs \<and> a \<in> set cs
      then Some \<lparr>tile_image = cropImage P e
                    \<lparr>rect_x = real_of_int (a * int TILE_SIZE) - rect_x wr,
                     rect_y = real_of_int (b * int TILE_SIZE) - rect_y wr,
                     rect_w = real TILE_SIZE, rect_h = real TILE_SIZE\<rparr>
                    (real TILE_SIZE) (real TILE_SIZE) False,
                 isEnhanced = True\<rparr>
      else m (a, b))"
proof (induction rs arbitrary: m)
  case Nil
  then show ?case by simp
next
  case (Cons r rs)
  show ?case
    by (auto simp add: Cons.IH fold_retileCell)
qed

lemma updatedTilesOf_lookup:
  "updatedTilesOf P result (a, b) =
     (if (a, b) \<in> retiledKeys result
      then Some \<lparr>tile_image = cropImage P (src result)
                    \<lparr>rect_x = real_of_int (a * int TILE_SIZE) - rect_x (worldRect result),
                     rect_y = real_of_int (b * int TILE_SIZE) - rect_y (worldRect result),
                     rect_w = real TILE_SIZE, rect_h = real TILE_SIZE\<rparr>
                    (real TILE_SIZE) (real TILE_SIZE) False,
                 isEnhanced = True\<rparr>
      else None)"
  by (simp add: updatedTilesOf_def retiledKeys_def Let_def fold_fold_retileCell)

lemma dom_updatedTilesOf: "dom (updatedTilesOf P result) = retiledKeys result"
  by (auto simp add: dom_def updatedTilesOf_lookup split: if_splits)

lemma dom_enhancedImage_onload:
  "dom (tiles (enhancedImage_onload P result s)) = dom (tiles s) \<union> retiledKeys result"
  by (auto simp add: enhancedImage_onload_def dom_updatedTilesOf)

lemma tileizeImage_partitions: "tilesPartitionWorld (tileizeImage P capture s)"
  by (simp add: tilesPartitionWorld_def tileizeImage_def Let_def gridKeys_def
      dom_tileize TILE_SIZE_pos)

subsection \<open>The worked run\<close>

lemma nwt512: "numWorldTiles 512 512 = 1"
  by (simp add: numWorldTiles_def)

lemma tileize_512: "tileize examplePlatform 512 (Photo 512 512) =
   [(0, 0) \<mapsto> \<lparr>tile_image = Cropped (Photo 512 512)
        \<lparr>rect_x = 0, rect_y = 0, rect_w = 512, rect_h = 512\<rparr> 512 512, isEnhanced = False\<rparr>]"
  by (simp add: tileize_def examplePlatform_def nwt512 tileizeCell_def cropRectAt_def)

lemma exampleLoaded_eq:
  "exampleLoaded =
     \<lparr>appState = LOADED,
      captures = [\<lparr>cap_id = CaptureDefault, cap_type = EQUIRECTANGULAR, cap_image = Photo 512 512,
                   cap_camera = defaultCamera, cap_gps = None, cap_locationStatus = None\<rparr>],
      tiles = [(0, 0) \<mapsto> \<lparr>tile_image = Cropped (Photo 512 512)
        \<lparr>rect_x = 0, rect_y = 0, rect_w = 512, rect_h = 512\<rparr> 512 512, isEnhanced = False\<rparr>],
      worldSize = \<lparr>width = 512, height = 512\<rparr>,
      view = exampleView,
      enhancementJob = None, stitchedEnhanceImage = None, enhancedResult = None,
      showBananaBanner = False, hasFoundBanana = False, isDefaultWorld = True\<rparr>"
  by (simp add: exampleLoaded_def run_def mounted_def loadInitialImage_def initialApp_def
      loadInitialImage_onload_def tileizeImage_def Let_def TILE_SIZE_def tileize_512)
    (simp add: examplePlatform_def)

lemma exampleEnhancing_eq:
  "exampleEnhancing =
     exampleLoaded
       \<lparr>stitchedEnhanceImage :=
          Some \<lparr>src = exampleStitched,
                worldRect = \<lparr>rect_x = 0, rect_y = 0, rect_w = 512, rect_h = 512\<rparr>\<rparr>,
        enhancementJob :=
          Some \<lparr>job_worldRect = \<lparr>rect_x = 0, rect_y = 0, rect_w = 500, rect_h = 400\<rparr>,
                job_screenRect = \<lparr>rect_x = 0, rect_y = 0, rect_w = 1000, rect_h = 800\<rparr>\<rparr>,
        appState := ENHANCING\<rparr>"
  by (simp add: exampleEnhancing_def exampleLoaded_eq triggerInference_def viewEnvOf_def exampleView_def
      exampleCanvas_def viewRectWorld_def handleInpaint_def Let_def TILE_SIZE_def
      stitchDraws_def exampleStitched_def)
    (simp add: examplePlatform_def)

lemma exampleEnhanced_eq:
  "exampleEnhanced =
     exampleLoaded
       \<lparr>stitchedEnhanceImage := Some exampleResult,
        enhancedResult := Some exampleResult,
        appState := ENHANCED\<rparr>"
  by (simp add: exampleEnhanced_def exampleEnhancing_eq exampleLoaded_eq performEnhancement_def
      serviceEnhance_def enhancePrompt_def exampleResult_def)

lemma exampleCompleted_eq:
  "exampleCompleted = enhancedImage_onload examplePlatform exampleResult exampleEnhanced"
  by (simp add: exampleCompleted_def exampleEnhanced_eq exampleLoaded_eq enhancementCompleted_def
      handleEnhancementComplete_def)

lemma retiledKeys_exampleResult: "retiledKeys exampleResult = {0 .. 1} \<times> {0 .. 1}"
  by (simp add: retiledKeys_def exampleResult_def TILE_SIZE_def)

lemma gridKeys_512: "gridKeys \<lparr>width = 512, height = 512\<rparr> = {0 ..< 1} \<times> {0 ..< 1}"
  by (simp add: gridKeys_def TILE_SIZE_def nwt512)

text \<open>
  C4 (as amended).  Tileization stores a tile for exactly the keys of the grid of the new
  world.  The merge of an enhancement result keeps the world size, removes no key and adds
  the keys that the retiling pass wrote; so every grid key stays stored, and the stored
  keys stay exactly the grid when the retiled keys lie inside the grid.
\<close>

theorem tile_keys_after_mutation:
  "tilesPartitionWorld (tileizeImage P capture s)
   \<and> worldSize (enhancedImage_onload P result s) = worldSize s
   \<and> dom (tiles (enhancedImage_onload P result s)) = dom (tiles s) \<union> retiledKeys result
   \<and> (gridKeys (worldSize s) \<subseteq> dom (tiles s) \<longrightarrow>
        gridKeys (worldSize s) \<subseteq> dom (tiles (enhancedImage_onload P result s)))
   \<and> (tilesPartitionWorld s \<and> retiledKeys result \<subseteq> gridKeys (worldSize s) \<longrightarrow>
        tilesPartitionWorld (enhancedImage_onload P result s))"
proof -
  have A: "tilesPartitionWorld (tileizeImage P capture s)"
    by (rule tileizeImage_partitions)
  have B: "worldSize (enhancedImage_onload P result s) = worldSize s"
    by (simp add: enhancedImage_onload_def)
  have C: "dom (tiles (enhancedImage_onload P result s)) = dom (tiles s) \<union> retiledKeys result"
    by (rule dom_enhancedImage_onload)
  have D: "gridKeys (worldSize s) \<subseteq> dom (tiles s) \<longrightarrow>
        gridKeys (worldSize s) \<subseteq> dom (tiles (enhancedImage_onload P result s))"
    unfolding C by blast
  have E: "tilesPartitionWorld s \<and> retiledKeys result \<subseteq> gridKeys (worldSize s) \<longrightarrow>
        tilesPartitionWorld (enhancedImage_onload P result s)"
    unfolding tilesPartitionWorld_def B C by blast
  from A B C D E show ?thesis by (intro conjI)
qed

lemma nwt2048: "numWorldTiles 2048 512 = 4"
  by (simp add: numWorldTiles_def)

theorem tile_keys_after_mutation_witness:
  "tilesPartitionWorld exampleBigWorld
   \<and> retiledKeys exampleResult \<subseteq> gridKeys (worldSize exampleBigWorld)
   \<and> tilesPartitionWorld (enhancedImage_onload examplePlatform exampleResult exampleBigWorld)"
proof -
  have a: "tilesPartitionWorld exampleBigWorld"
    unfolding exampleBigWorld_def by (rule tile_keys_after_mutation [THEN conjunct1])
  have "worldSize exampleBigWorld = \<lparr>width = 2048, height = 2048\<rparr>"
    by (simp add: exampleBigWorld_def tileizeImage_def Let_def examplePlatform_def)
  then have g: "gridKeys (worldSize exampleBigWorld) = {0 ..< 4} \<times> {0 ..< 4}"
    by (simp add: gridKeys_def TILE_SIZE_def nwt2048)
  have b: "retiledKeys exampleResult \<subseteq> gridKeys (worldSize exampleBigWorld)"
    unfolding g retiledKeys_exampleResult by (intro Sigma_mono subsetI, simp_all)
  have c: "tilesPartitionWorld (enhancedImage_onload examplePlatform exampleResult exampleBigWorld)"
    using a b
      tile_keys_after_mutation [where s = exampleBigWorld and result = exampleResult
        and P = examplePlatform, THEN conjunct2, THEN conjunct2, THEN conjunct2, THEN conjunct2]
    by simp
  from a b c show ?thesis by simp
qed

lemma exampleEdgeLoaded_eq:
  "exampleEdgeLoaded =
     \<lparr>appState = LOADED,
      captures = [\<lparr>cap_id = CaptureDefault, cap_type = EQUIRECTANGULAR, cap_image = Photo 512 512,
                   cap_camera = defaultCamera, cap_gps = None, cap_locationStatus = None\<rparr>],
      tiles = [(0, 0) \<mapsto> \<lparr>tile_image = Cropped (Photo 512 512)
        \<lparr>rect_x = 0, rect_y = 0, rect_w = 512, rect_h = 512\<rparr> 512 512, isEnhanced = False\<rparr>],
      worldSize = \<lparr>width = 512, height = 512\<rparr>,
      view = exampleEdgeView,
      enhancementJob = None, stitchedEnhanceImage = None, enhancedResult = None,
      showBananaBanner = False, hasFoundBanana = False, isDefaultWorld = True\<rparr>"
  by (simp add: exampleEdgeLoaded_def run_def mounted_def loadInitialImage_def initialApp_def
      loadInitialImage_onload_def tileizeImage_def Let_def TILE_SIZE_def tileize_512)
    (simp add: examplePlatform_def)

lemma upto_0_1: "[0..1] = [0, 1 :: int]"
  by (simp add: upto_rec1)

lemma exampleEdge_trigger:
  "triggerInference examplePlatform exampleEdgeLoaded (Some exampleCanvas) (1000, 800)
     exampleEdgeLoaded =
     exampleEdgeLoaded
       \<lparr>stitchedEnhanceImage := Some exampleEdgeResult,
        enhancementJob :=
          Some \<lparr>job_worldRect = \<lparr>rect_x = 300, rect_y = 0, rect_w = 500, rect_h = 400\<rparr>,
                job_screenRect = \<lparr>rect_x = 0, rect_y = 0, rect_w = 1000, rect_h = 800\<rparr>\<rparr>,
        appState := ENHANCING\<rparr>"
  by (simp add: exampleEdgeLoaded_eq triggerInference_def viewEnvOf_def exampleEdgeView_def
      exampleCanvas_def viewRectWorld_def handleInpaint_def Let_def TILE_SIZE_def
      stitchDraws_def exampleEdgeStitched_def exampleEdgeResult_def upto_0_1)
    (simp add: examplePlatform_def)

lemma exampleEdgeEnhanced_eq:
  "exampleEdgeEnhanced =
     exampleEdgeLoaded
       \<lparr>stitchedEnhanceImage := Some exampleEdgeResult,
        enhancedResult := Some exampleEdgeResult,
        appState := ENHANCED\<rparr>"
  by (simp add: exampleEdgeEnhanced_def run_def exampleEdge_trigger)
    (simp add: exampleEdgeLoaded_eq performEnhancement_def serviceEnhance_def enhancePrompt_def
      exampleEdgeResult_def)

lemma exampleEdgeCompleted_eq:
  "exampleEdgeCompleted =
     enhancedImage_onload examplePlatform exampleEdgeResult exampleEdgeEnhanced"
  by (simp add: exampleEdgeCompleted_def exampleEdgeEnhanced_eq exampleEdgeLoaded_eq
      enhancementCompleted_def handleEnhancementComplete_def)

lemma retiledKeys_exampleEdgeResult: "retiledKeys exampleEdgeResult = {0 .. 2} \<times> {0 .. 1}"
  by (simp add: retiledKeys_def exampleEdgeResult_def TILE_SIZE_def)

text \<open>
  In the second run the view reaches past the right edge of the one-tile world: it is the
  world rectangle from x = 300 to x = 800.  handleInpaint stitches the columns 0 and 1 (the
  stitched rectangle is 1024 wide; no tile exists at column 1, and the lookup does not wrap
  it to column 0), and the merge stores a tile for the key (1, 0), cropped from inside the
  stitched raster.  (1, 0) is not a key of the grid of the world.
\<close>

theorem merge_adds_keys_outside_grid_counterexample:
  "tilesPartitionWorld exampleEdgeEnhanced
   \<and> enhancedResult exampleEdgeEnhanced = Some exampleEdgeResult
   \<and> (1, 0) \<notin> gridKeys (worldSize exampleEdgeEnhanced)
   \<and> tiles exampleEdgeCompleted (1, 0) =
       Some \<lparr>tile_image = Cropped exampleEdgeStitched
               \<lparr>rect_x = 512, rect_y = 0, rect_w = 512, rect_h = 512\<rparr> 512 512,
             isEnhanced = True\<rparr>
   \<and> \<not> tilesPartitionWorld exampleEdgeCompleted"
proof -
  have ws: "worldSize exampleEdgeEnhanced = \<lparr>width = 512, height = 512\<rparr>"
    by (simp add: exampleEdgeEnhanced_eq exampleEdgeLoaded_eq)
  have "dom (tiles exampleEdgeEnhanced) = {(0, 0)}"
    by (simp add: exampleEdgeEnhanced_eq exampleEdgeLoaded_eq)
  then have a: "tilesPartitionWorld exampleEdgeEnhanced"
    by (auto simp add: tilesPartitionWorld_def ws gridKeys_512)
  have b: "enhancedResult exampleEdgeEnhanced = Some exampleEdgeResult"
    by (simp add: exampleEdgeEnhanced_eq)
  have c: "(1, 0) \<notin> gridKeys (worldSize exampleEdgeEnhanced)"
    by (simp add: ws gridKeys_512)
  have k: "(1, 0) \<in> retiledKeys exampleEdgeResult"
    by (simp add: retiledKeys_exampleEdgeResult)
  have "updatedTilesOf examplePlatform exampleEdgeResult (1, 0) =
       Some \<lparr>tile_image = Cropped exampleEdgeStitched
               \<lparr>rect_x = 512, rect_y = 0, rect_w = 512, rect_h = 512\<rparr> 512 512,
             isEnhanced = True\<rparr>"
    by (simp add: updatedTilesOf_lookup k)
      (simp add: exampleEdgeResult_def examplePlatform_def TILE_SIZE_def)
  then have d: "tiles exampleEdgeCompleted (1, 0) =
       Some \<lparr>tile_image = Cropped exampleEdgeStitched
               \<lparr>rect_x = 512, rect_y = 0, rect_w = 512, rect_h = 512\<rparr> 512 512,
             isEnhanced = True\<rparr>"
    unfolding exampleEdgeCompleted_eq enhancedImage_onload_def
    by simp
  have ws': "worldSize exampleEdgeCompleted = \<lparr>width = 512, height = 512\<rparr>"
    by (simp add: exampleEdgeCompleted_eq enhancedImage_onload_def ws)
  have "(1, 0) \<in> dom (tiles exampleEdgeCompleted)"
    using d by (simp add: dom_def)
  moreover have "(1, 0) \<notin> gridKeys \<lparr>width = 512, height = 512\<rparr>"
    by (simp add: gridKeys_512)
  ultimately have e: "\<not> tilesPartitionWorld exampleEdgeCompleted"
    unfolding tilesPartitionWorld_def ws' by blast
  from a b c d e show ?thesis by (intro conjI)
qed

section \<open>Failure of the image service\<close>

lemma serviceEnhance_fails:
  "outcome = ClientRaises \<or> outcome = GenerationRaises \<Longrightarrow>
   serviceEnhance outcome img enhancePrompt found = Inl Raised
   \<or> serviceEnhance outcome img enhancePrompt found = Inr (img, False)"
  by (auto simp add: serviceEnhance_def)

lemma performEnhancement_fails:
  assumes "stitchedEnhanceImage s = Some stitched"
      and "outcome = ClientRaises \<or> outcome = GenerationRaises"
  shows "performEnhancement outcome s =
           s\<lparr>enhancedResult := Some stitched, appState := ENHANCED, enhancementJob := None\<rparr>"
  using assms by (auto simp add: performEnhancement_def serviceEnhance_def enhancePrompt_def)

lemma enhancementCompleted_tiles:
  assumes "enhancedResult s = Some result"
  shows "tiles (enhancementCompleted P s) = tiles s ++ updatedTilesOf P result"
    and "appState (enhancementCompleted P s) = LOADED"
  using assms
  by (simp_all add: enhancementCompleted_def handleEnhancementComplete_def enhancedImage_onload_def)

text \<open>
  C7 (as amended).  If the image service fails, the result of the job is the stitched
  input unchanged and the job still completes: the state becomes ENHANCED and then LOADED.
  Completion writes, for every key of the retiling pass, a TILE_SIZE crop of the stitched
  raster with isEnhanced set to true; the tiles at all other keys are unchanged.
\<close>

theorem enhancer_failure_retiles_stitched:
  assumes "stitchedEnhanceImage s = Some stitched"
      and "outcome = ClientRaises \<or> outcome = GenerationRaises"
  shows "enhancedResult (performEnhancement outcome s) = Some stitched
       \<and> appState (performEnhancement outcome s) = ENHANCED
       \<and> tiles (performEnhancement outcome s) = tiles s
       \<and> appState (enhancementCompleted P (performEnhancement outcome s)) = LOADED
       \<and> (\<forall>c r. (c, r) \<in> retiledKeys stitched \<longrightarrow>
            tiles (enhancementCompleted P (performEnhancement outcome s)) (c, r) =
              Some \<lparr>tile_image = cropImage P (src stitched)
                      \<lparr>rect_x = real_of_int (c * int TILE_SIZE) - rect_x (worldRect stitched),
                       rect_y = real_of_int (r * int TILE_SIZE) - rect_y (worldRect stitched),
                       rect_w = real TILE_SIZE, rect_h = real TILE_SIZE\<rparr>
                      (real TILE_SIZE) (real TILE_SIZE) False,
                    isEnhanced = True\<rparr>)
       \<and> (\<forall>k. k \<notin> retiledKeys stitched \<longrightarrow>
            tiles (enhancementCompleted P (performEnhancement outcome s)) k = tiles s k)"
proof -
  have p: "performEnhancement outcome s =
           s\<lparr>enhancedResult := Some stitched, appState := ENHANCED, enhancementJob := None\<rparr>"
    using assms by (rule performEnhancement_fails)
  have r: "enhancedResult (performEnhancement outcome s) = Some stitched"
    by (simp add: p)
  have t: "tiles (enhancementCompleted P (performEnhancement outcome s)) =
      tiles s ++ updatedTilesOf P stitched"
    using enhancementCompleted_tiles(1) [OF r] by (simp add: p)
  have A: "appState (performEnhancement outcome s) = ENHANCED" by (simp add: p)
  have B: "tiles (performEnhancement outcome s) = tiles s" by (simp add: p)
  have C: "appState (enhancementCompleted P (performEnhancement outcome s)) = LOADED"
    using r by (rule enhancementCompleted_tiles(2))
  have D: "\<forall>c r. (c, r) \<in> retiledKeys stitched \<longrightarrow>
            tiles (enhancementCompleted P (performEnhancement outcome s)) (c, r) =
              Some \<lparr>tile_image = cropImage P (src stitched)
                      \<lparr>rect_x = real_of_int (c * int TILE_SIZE) - rect_x (worldRect stitched),
                       rect_y = real_of_int (r * int TILE_SIZE) - rect_y (worldRect stitched),
                       rect_w = real TILE_SIZE, rect_h = real TILE_SIZE\<rparr>
                      (real TILE_SIZE) (real TILE_SIZE) False,
                    isEnhanced = True\<rparr>"
    by (simp add: t map_add_def updatedTilesOf_lookup)
  have E: "\<forall>k. k \<notin> retiledKeys stitched \<longrightarrow>
            tiles (enhancementCompleted P (performEnhancement outcome s)) k = tiles s k"
  proof (intro allI impI)
    fix k :: "int \<times> int"
    assume "k \<notin> retiledKeys stitched"
    then have "updatedTilesOf P stitched k = None"
      by (cases k) (simp add: updatedTilesOf_lookup)
    then show "tiles (enhancementCompleted P (performEnhancement outcome s)) k = tiles s k"
      by (simp add: t map_add_def)
  qed
  from r A B C D E show ?thesis by (intro conjI)
qed

lemma exampleEnhancing_stitched: "stitchedEnhanceImage exampleEnhancing = Some exampleResult"
  by (simp add: exampleEnhancing_eq exampleResult_def)

theorem enhancer_failure_retiles_stitched_witness:
  "stitchedEnhanceImage exampleEnhancing = Some exampleResult
   \<and> (GenerationRaises = (ClientRaises :: Raster EnhanceOutcome) \<or> 
      GenerationRaises = (GenerationRaises :: Raster EnhanceOutcome))
   \<and> enhancedResult (performEnhancement GenerationRaises exampleEnhancing) = Some exampleResult
   \<and> tiles (enhancementCompleted examplePlatform
         (performEnhancement GenerationRaises exampleEnhancing)) (0, 0) =
        Some \<lparr>tile_image = Cropped exampleStitched
                \<lparr>rect_x = 0, rect_y = 0, rect_w = 512, rect_h = 512\<rparr> 512 512,
              isEnhanced = True\<rparr>
   \<and> tiles (enhancementCompleted examplePlatform
         (performEnhancement GenerationRaises exampleEnhancing)) (5, 5) = None"
proof -
  have o: "GenerationRaises = (ClientRaises :: Raster EnhanceOutcome) \<or> 
      GenerationRaises = (GenerationRaises :: Raster EnhanceOutcome)" by simp
  note inst = enhancer_failure_retiles_stitched [OF exampleEnhancing_stitched o, of examplePlatform]
  have a: "enhancedResult (performEnhancement GenerationRaises exampleEnhancing) = Some exampleResult"
    using inst by (rule conjunct1)
  have k: "(0, 0) \<in> retiledKeys exampleResult" "(5, 5) \<notin> retiledKeys exampleResult"
    by (simp_all add: retiledKeys_exampleResult)
  have "tiles (enhancementCompleted examplePlatform
         (performEnhancement GenerationRaises exampleEnhancing)) (0, 0) =
              Some \<lparr>tile_image = cropImage examplePlatform (src exampleResult)
                      \<lparr>rect_x = real_of_int (0 * int TILE_SIZE) - rect_x (worldRect exampleResult),
                       rect_y = real_of_int (0 * int TILE_SIZE) - rect_y (worldRect exampleResult),
                       rect_w = real TILE_SIZE, rect_h = real TILE_SIZE\<rparr>
                      (real TILE_SIZE) (real TILE_SIZE) False,
                    isEnhanced = True\<rparr>"
    using inst k(1) by blast
  then have b: "tiles (enhancementCompleted examplePlatform
         (performEnhancement GenerationRaises exampleEnhancing)) (0, 0) =
        Some \<lparr>tile_image = Cropped exampleStitched
                \<lparr>rect_x = 0, rect_y = 0, rect_w = 512, rect_h = 512\<rparr> 512 512,
              isEnhanced = True\<rparr>"
    by (simp add: examplePlatform_def exampleResult_def TILE_SIZE_def)
  have "tiles (enhancementCompleted examplePlatform
         (performEnhancement GenerationRaises exampleEnhancing)) (5, 5) = tiles exampleEnhancing (5, 5)"
    using inst k(2) by blast
  then have c: "tiles (enhancementCompleted examplePlatform
         (performEnhancement GenerationRaises exampleEnhancing)) (5, 5) = None"
    by (simp add: exampleEnhancing_eq exampleLoaded_eq)
  from exampleEnhancing_stitched o a b c show ?thesis by (intro conjI)
qed

text \<open>
  In the worked run the image service fails.  Before the job the tile (0, 0) is the crop
  of the photo with isEnhanced unset; after the job it is a crop of the stitched raster
  with isEnhanced set, and a tile exists at (1, 1), where there was none.
\<close>

theorem enhancer_failure_marks_tiles_counterexample:
  "tiles exampleEnhancing (0, 0) =
     Some \<lparr>tile_image = Cropped (Photo 512 512)
             \<lparr>rect_x = 0, rect_y = 0, rect_w = 512, rect_h = 512\<rparr> 512 512,
           isEnhanced = False\<rparr>
   \<and> enhancedResult exampleEnhanced = stitchedEnhanceImage exampleEnhancing
   \<and> tiles exampleCompleted (0, 0) =
     Some \<lparr>tile_image = Cropped exampleStitched
             \<lparr>rect_x = 0, rect_y = 0, rect_w = 512, rect_h = 512\<rparr> 512 512,
           isEnhanced = True\<rparr>
   \<and> tiles exampleEnhancing (1, 1) = None
   \<and> tiles exampleCompleted (1, 1) =
     Some \<lparr>tile_image = Cropped exampleStitched
             \<lparr>rect_x = 512, rect_y = 512, rect_w = 512, rect_h = 512\<rparr> 512 512,
           isEnhanced = True\<rparr>"
proof -
  have k: "(0, 0) \<in> retiledKeys exampleResult" "(1, 1) \<in> retiledKeys exampleResult"
    by (simp_all add: retiledKeys_exampleResult)
  have a: "tiles exampleEnhancing (0, 0) =
     Some \<lparr>tile_image = Cropped (Photo 512 512)
             \<lparr>rect_x = 0, rect_y = 0, rect_w = 512, rect_h = 512\<rparr> 512 512,
           isEnhanced = False\<rparr>"
    by (simp add: exampleEnhancing_eq exampleLoaded_eq)
  have b: "enhancedResult exampleEnhanced = stitchedEnhanceImage exampleEnhancing"
    by (simp add: exampleEnhanced_eq exampleEnhancing_eq exampleResult_def)
  have c: "tiles exampleCompleted (0, 0) =
     Some \<lparr>tile_image = Cropped exampleStitched
             \<lparr>rect_x = 0, rect_y = 0, rect_w = 512, rect_h = 512\<rparr> 512 512,
           isEnhanced = True\<rparr>"
    by (simp add: exampleCompleted_eq enhancedImage_onload_def map_add_def
        updatedTilesOf_lookup k)
      (simp add: exampleResult_def examplePlatform_def TILE_SIZE_def)
  have d: "tiles exampleEnhancing (1, 1) = None"
    by (simp add: exampleEnhancing_eq exampleLoaded_eq)
  have e: "tiles exampleCompleted (1, 1) =
     Some \<lparr>tile_image = Cropped exampleStitched
             \<lparr>rect_x = 512, rect_y = 512, rect_w = 512, rect_h = 512\<rparr> 512 512,
           isEnhanced = True\<rparr>"
    by (simp add: exampleCompleted_eq enhancedImage_onload_def map_add_def
        updatedTilesOf_lookup k)
      (simp add: exampleResult_def examplePlatform_def TILE_SIZE_def)
  from a b c d e show ?thesis by (intro conjI)
qed

section \<open>The resumed continuation\<close>

lemma tiles_enhancedImage_onload:
  "tiles (enhancedImage_onload P result s) = tiles s ++ updatedTilesOf P result"
  by (simp add: enhancedImage_onload_def)

text \<open>
  C2 (as amended).  When the onload continuation of handleEnhancementComplete resumes, it
  does not look at the job or the world: in whatever state it resumes, it merges the
  retiled result into the tile map of that moment, clears the stitched image and the
  result and sets the state to LOADED.  After a reset the tile map becomes the retiled
  result alone; after a new world was started the retiled result is laid over the new
  world's tiles.
\<close>

theorem resumed_result_is_merged:
  "tiles (enhancedImage_onload P result s) = tiles s ++ updatedTilesOf P result
   \<and> dom (updatedTilesOf P result) = retiledKeys result
   \<and> appState (enhancedImage_onload P result s) = LOADED
   \<and> enhancedResult (enhancedImage_onload P result s) = None
   \<and> stitchedEnhanceImage (enhancedImage_onload P result s) = None
   \<and> tiles (enhancedImage_onload P result (resetState s)) = updatedTilesOf P result
   \<and> tiles (enhancedImage_onload P result (startNewWorld P now img gps locationStatus s)) =
       tileize P TILE_SIZE img ++ updatedTilesOf P result"
  by (simp add: enhancedImage_onload_def dom_updatedTilesOf resetState_def loadInitialImage_def
      startNewWorld_def tileizeImage_def Let_def)

text \<open>
  In the worked run, the dissolve animation ends and the result starts decoding.  Before
  it has loaded, a capture arrives that the scene comparison judges different, so a new
  world (300 by 200 pixels) replaces the old one; or the state is reset.  When the image
  has loaded, the tile (0, 0) of the new world is replaced by a crop of the old world's
  stitched raster, and the emptied tile map of the reset state receives that tile.
\<close>

theorem stale_result_merged_counterexample:
  "handleEnhancementComplete exampleEnhanced = Some exampleResult
   \<and> tiles (dispatch examplePlatform
        (NewCapture 1 (Answer (Some False)) (Photo 300 200) None None) exampleEnhanced) (0, 0) =
       Some \<lparr>tile_image = Cropped (Photo 300 200)
               \<lparr>rect_x = 0, rect_y = 0, rect_w = 300, rect_h = 200\<rparr> 300 200,
             isEnhanced = False\<rparr>
   \<and> tiles (enhancedImage_onload examplePlatform exampleResult
        (dispatch examplePlatform
          (NewCapture 1 (Answer (Some False)) (Photo 300 200) None None) exampleEnhanced)) (0, 0) =
       Some \<lparr>tile_image = Cropped exampleStitched
               \<lparr>rect_x = 0, rect_y = 0, rect_w = 512, rect_h = 512\<rparr> 512 512,
             isEnhanced = True\<rparr>
   \<and> tiles (resetState exampleEnhanced) (0, 0) = None
   \<and> tiles (enhancedImage_onload examplePlatform exampleResult (resetState exampleEnhanced)) (0, 0) =
       Some \<lparr>tile_image = Cropped exampleStitched
               \<lparr>rect_x = 0, rect_y = 0, rect_w = 512, rect_h = 512\<rparr> 512 512,
             isEnhanced = True\<rparr>"
proof -
  have k: "(0, 0) \<in> retiledKeys exampleResult"
    by (simp add: retiledKeys_exampleResult)
  have u: "updatedTilesOf examplePlatform exampleResult (0, 0) =
       Some \<lparr>tile_image = Cropped exampleStitched
               \<lparr>rect_x = 0, rect_y = 0, rect_w = 512, rect_h = 512\<rparr> 512 512,
             isEnhanced = True\<rparr>"
    by (simp add: updatedTilesOf_lookup k) (simp add: exampleResult_def examplePlatform_def TILE_SIZE_def)
  have a: "handleEnhancementComplete exampleEnhanced = Some exampleResult"
    by (simp add: handleEnhancementComplete_def exampleEnhanced_eq)
  have n: "dispatch examplePlatform
        (NewCapture 1 (Answer (Some False)) (Photo 300 200) None None) exampleEnhanced =
      startNewWorld examplePlatform 1 (Photo 300 200) None None
        (exampleEnhanced\<lparr>appState := ANALYZING\<rparr>)"
    by (simp add: handleNewCapture_def exampleEnhanced_eq exampleLoaded_eq isNewWorldGps_def
        serviceCompareScenes_def)
  have nw: "numWorldTiles 300 512 = 1" "numWorldTiles 200 512 = 1"
    by (simp_all add: numWorldTiles_def)
  have t: "tileize examplePlatform TILE_SIZE (Photo 300 200) (0, 0) =
       Some \<lparr>tile_image = Cropped (Photo 300 200)
               \<lparr>rect_x = 0, rect_y = 0, rect_w = 300, rect_h = 200\<rparr> 300 200,
             isEnhanced = False\<rparr>"
    by (simp add: tileize_lookup TILE_SIZE_pos)
      (simp add: examplePlatform_def TILE_SIZE_def nw cropRectAt_def)
  have b: "tiles (dispatch examplePlatform
        (NewCapture 1 (Answer (Some False)) (Photo 300 200) None None) exampleEnhanced) (0, 0) =
       Some \<lparr>tile_image = Cropped (Photo 300 200)
               \<lparr>rect_x = 0, rect_y = 0, rect_w = 300, rect_h = 200\<rparr> 300 200,
             isEnhanced = False\<rparr>"
    unfolding n by (simp add: startNewWorld_def tileizeImage_def Let_def t)
  have c: "tiles (enhancedImage_onload examplePlatform exampleResult
        (dispatch examplePlatform
          (NewCapture 1 (Answer (Some False)) (Photo 300 200) None None) exampleEnhanced)) (0, 0) =
       Some \<lparr>tile_image = Cropped exampleStitched
               \<lparr>rect_x = 0, rect_y = 0, rect_w = 512, rect_h = 512\<rparr> 512 512,
             isEnhanced = True\<rparr>"
    unfolding tiles_enhancedImage_onload using u by (rule map_add_find_right)
  have d: "tiles (resetState exampleEnhanced) (0, 0) = None"
    by (simp add: resetState_def loadInitialImage_def)
  have e: "tiles (enhancedImage_onload examplePlatform exampleResult (resetState exampleEnhanced)) (0, 0) =
       Some \<lparr>tile_image = Cropped exampleStitched
               \<lparr>rect_x = 0, rect_y = 0, rect_w = 512, rect_h = 512\<rparr> 512 512,
             isEnhanced = True\<rparr>"
    unfolding tiles_enhancedImage_onload using u by (rule map_add_find_right)
  from a b c d e show ?thesis by (intro conjI)
qed

section \<open>Inpaint triggers in a busy state\<close>

lemma handleInpaint_render_busy:
  "appState render \<noteq> LOADED \<Longrightarrow> handleInpaint P render wRect screenRect s = s"
  by (simp add: handleInpaint_def)

lemma triggerInference_render_busy:
  "appState render \<noteq> LOADED \<Longrightarrow> triggerInference P render cv window s = s"
  by (simp add: triggerInference_def viewEnvOf_def)

text \<open>
  The guards look at the render that armed the timer, not at the state in which the
  callback runs: when that render was LOADED and zoomed in, and the canvas exists, the
  callback creates a job in every state.
\<close>

lemma stale_trigger_creates_job:
  assumes "appState render = LOADED" and "context2d P" and "zoom (view render) > 101 / 100"
  shows "appState (triggerInference P render (Some r) window s) = ENHANCING
       \<and> enhancementJob (triggerInference P render (Some r) window s) =
           Some \<lparr>job_worldRect = viewRectWorld r (view render),
                 job_screenRect =
                   \<lparr>rect_x = 0, rect_y = 0, rect_w = fst window, rect_h = snd window\<rparr>\<rparr>
       \<and> stitchedEnhanceImage (triggerInference P render (Some r) window s) \<noteq> None"
  using assms by (simp add: triggerInference_def viewEnvOf_def handleInpaint_def Let_def)

lemma exampleAnalyzing_trigger:
  "triggerInference examplePlatform exampleLoaded (Some exampleCanvas) (1000, 800)
     exampleAnalyzing =
     exampleAnalyzing
       \<lparr>stitchedEnhanceImage := Some exampleResult,
        enhancementJob :=
          Some \<lparr>job_worldRect = \<lparr>rect_x = 0, rect_y = 0, rect_w = 500, rect_h = 400\<rparr>,
                job_screenRect = \<lparr>rect_x = 0, rect_y = 0, rect_w = 1000, rect_h = 800\<rparr>\<rparr>,
        appState := ENHANCING\<rparr>"
  by (simp add: exampleAnalyzing_def exampleLoaded_eq triggerInference_def viewEnvOf_def
      exampleView_def exampleCanvas_def viewRectWorld_def handleInpaint_def Let_def TILE_SIZE_def
      stitchDraws_def exampleStitched_def exampleResult_def)
    (simp add: examplePlatform_def)

text \<open>
  C1.  In the worked run the default world is LOADED at zoom 2 and a gesture arms the
  inference timer.  Before it fires, a capture without GPS coordinates arrives:
  handleNewCapture sets the state to ANALYZING and waits for the scene comparison.
  ImageDisplay stays rendered in that state, so the canvas exists.  The timer fires with
  the triggerInference of the render that armed it, whose isBusy is false and whose
  handleInpaint reads appState = LOADED: a stitched image and an enhancement job are
  created and the state becomes ENHANCING, although the state was not LOADED.
\<close>

theorem stale_trigger_creates_job_while_busy:
  "appState exampleLoaded = LOADED
   \<and> handleNewCapture_awaiting examplePlatform None exampleLoaded = Some exampleAnalyzing
   \<and> appState exampleAnalyzing = ANALYZING
   \<and> enhancementJob exampleAnalyzing = None
   \<and> stitchedEnhanceImage exampleAnalyzing = None
   \<and> imageDisplayMounted exampleAnalyzing
   \<and> triggerInference examplePlatform exampleLoaded (Some exampleCanvas) (1000, 800)
        exampleAnalyzing =
       exampleAnalyzing
         \<lparr>stitchedEnhanceImage := Some exampleResult,
          enhancementJob :=
            Some \<lparr>job_worldRect = \<lparr>rect_x = 0, rect_y = 0, rect_w = 500, rect_h = 400\<rparr>,
                  job_screenRect = \<lparr>rect_x = 0, rect_y = 0, rect_w = 1000, rect_h = 800\<rparr>\<rparr>,
          appState := ENHANCING\<rparr>
   \<and> appState (triggerInference examplePlatform exampleLoaded (Some exampleCanvas) (1000, 800)
        exampleAnalyzing) = ENHANCING"
proof -
  have a: "appState exampleLoaded = LOADED"
    by (simp add: exampleLoaded_eq)
  have b: "handleNewCapture_awaiting examplePlatform None exampleLoaded = Some exampleAnalyzing"
    by (simp add: handleNewCapture_awaiting_def exampleAnalyzing_def isNewWorldGps_def
        exampleLoaded_eq)
  have c: "appState exampleAnalyzing = ANALYZING"
    by (simp add: exampleAnalyzing_def)
  have d: "enhancementJob exampleAnalyzing = None"
    by (simp add: exampleAnalyzing_def exampleLoaded_eq)
  have e: "stitchedEnhanceImage exampleAnalyzing = None"
    by (simp add: exampleAnalyzing_def exampleLoaded_eq)
  have f: "imageDisplayMounted exampleAnalyzing"
    by (simp add: imageDisplayMounted_def exampleAnalyzing_def exampleLoaded_eq)
  have g: "appState (triggerInference examplePlatform exampleLoaded (Some exampleCanvas)
        (1000, 800) exampleAnalyzing) = ENHANCING"
    by (simp add: exampleAnalyzing_trigger)
  from a b c d e f exampleAnalyzing_trigger g show ?thesis by (intro conjI)
qed

section \<open>World continuity\<close>

lemma startNewWorld_fields:
  "isDefaultWorld (startNewWorld P now img gps ls s) = False"
  "captures (startNewWorld P now img gps ls s) =
     [\<lparr>cap_id = CaptureAt now, cap_type = EQUIRECTANGULAR, cap_image = img,
       cap_camera = defaultCamera, cap_gps = gps, cap_locationStatus = ls\<rparr>]"
  "tiles (startNewWorld P now img gps ls s) = tileize P TILE_SIZE img"
  "worldSize (startNewWorld P now img gps ls s) =
     \<lparr>width = naturalWidth P img, height = naturalHeight P img\<rparr>"
  by (simp_all add: startNewWorld_def tileizeImage_def Let_def)

text \<open>
  With two GPS coordinates the branch is taken on the number that calculateDistance
  returns in the engine: a new world when that number is greater than 100, and none when
  it is not, NaN included.
\<close>

lemma isNewWorldGps_both_gps:
  assumes "cap_gps baseCapture = Some bg"
  shows "isNewWorldGps P s baseCapture (Some g) =
           js_gt (calculateDistance (float64 P) g bg) (Finite 100)"
  using assms by (simp add: isNewWorldGps_def GPS_DISTANCE_THRESHOLD_METERS_def)

lemma isNewWorldGps_NaN:
  assumes "cap_gps baseCapture = Some bg" and "calculateDistance (float64 P) g bg = NaN"
  shows "\<not> isNewWorldGps P s baseCapture (Some g)"
  using assms by (simp add: isNewWorldGps_both_gps)

text \<open>
  When the scene comparison raises, in either place, the capture is appended and the
  world is kept.
\<close>

lemma raising_oracle_keeps_world:
  assumes "captures s = baseCapture # rest"
      and "isDefaultWorld s"
      and "\<not> isNewWorldGps P s baseCapture gps"
      and "outcome = EncodingRaises \<or> outcome = RequestRaises"
  shows "handleNewCapture P now outcome img gps ls s
           = s\<lparr>captures := baseCapture # rest @
                  [\<lparr>cap_id = CaptureAt now, cap_type = PERSPECTIVE, cap_image = img,
                    cap_camera = defaultCamera, cap_gps = gps, cap_locationStatus = ls\<rparr>],
               appState := LOADED\<rparr>"
  using assms
  by (auto simp add: handleNewCapture_def serviceCompareScenes_def perspectiveCapture_def)

text \<open>
  C6.  In the default world of the worked run a capture without GPS coordinates arrives
  and the scene comparison fails without raising: its answer has no isSameScene field.
  serviceCompareScenes returns false for it, and handleNewCapture starts a new world:
  the capture sequence is the new capture alone, the world size is that of the new image
  and the tile (0, 0) of the old world is replaced.
\<close>

theorem missing_answer_discards_world:
  "isDefaultWorld exampleLoaded
   \<and> captures exampleLoaded =
       [\<lparr>cap_id = CaptureDefault, cap_type = EQUIRECTANGULAR, cap_image = Photo 512 512,
         cap_camera = defaultCamera, cap_gps = None, cap_locationStatus = None\<rparr>]
   \<and> tiles exampleLoaded (0, 0) =
       Some \<lparr>tile_image = Cropped (Photo 512 512)
               \<lparr>rect_x = 0, rect_y = 0, rect_w = 512, rect_h = 512\<rparr> 512 512,
             isEnhanced = False\<rparr>
   \<and> serviceCompareScenes (Answer None) = Inr False
   \<and> captures (handleNewCapture examplePlatform 7 (Answer None) (Photo 300 200) None None
        exampleLoaded) =
       [\<lparr>cap_id = CaptureAt 7, cap_type = EQUIRECTANGULAR, cap_image = Photo 300 200,
         cap_camera = defaultCamera, cap_gps = None, cap_locationStatus = None\<rparr>]
   \<and> worldSize (handleNewCapture examplePlatform 7 (Answer None) (Photo 300 200) None None
        exampleLoaded) = \<lparr>width = 300, height = 200\<rparr>
   \<and> tiles (handleNewCapture examplePlatform 7 (Answer None) (Photo 300 200) None None
        exampleLoaded) (0, 0) =
       Some \<lparr>tile_image = Cropped (Photo 300 200)
               \<lparr>rect_x = 0, rect_y = 0, rect_w = 300, rect_h = 200\<rparr> 300 200,
             isEnhanced = False\<rparr>"
proof -
  have a: "isDefaultWorld exampleLoaded"
    by (simp add: exampleLoaded_eq)
  have b: "captures exampleLoaded =
       [\<lparr>cap_id = CaptureDefault, cap_type = EQUIRECTANGULAR, cap_image = Photo 512 512,
         cap_camera = defaultCamera, cap_gps = None, cap_locationStatus = None\<rparr>]"
    by (simp add: exampleLoaded_eq)
  have c: "tiles exampleLoaded (0, 0) =
       Some \<lparr>tile_image = Cropped (Photo 512 512)
               \<lparr>rect_x = 0, rect_y = 0, rect_w = 512, rect_h = 512\<rparr> 512 512,
             isEnhanced = False\<rparr>"
    by (simp add: exampleLoaded_eq)
  have d: "serviceCompareScenes (Answer None) = Inr False"
    by (simp add: serviceCompareScenes_def)
  have n: "handleNewCapture examplePlatform 7 (Answer None) (Photo 300 200) None None
        exampleLoaded =
      startNewWorld examplePlatform 7 (Photo 300 200) None None
        (exampleLoaded\<lparr>appState := ANALYZING\<rparr>)"
    by (simp add: handleNewCapture_def b a isNewWorldGps_def d)
  have e: "captures (handleNewCapture examplePlatform 7 (Answer None) (Photo 300 200) None None
        exampleLoaded) =
       [\<lparr>cap_id = CaptureAt 7, cap_type = EQUIRECTANGULAR, cap_image = Photo 300 200,
         cap_camera = defaultCamera, cap_gps = None, cap_locationStatus = None\<rparr>]"
    by (simp only: n startNewWorld_fields)
  have f: "worldSize (handleNewCapture examplePlatform 7 (Answer None) (Photo 300 200) None None
        exampleLoaded) = \<lparr>width = 300, height = 200\<rparr>"
    by (simp only: n startNewWorld_fields) (simp add: examplePlatform_def)
  have nw: "numWorldTiles 300 512 = 1" "numWorldTiles 200 512 = 1"
    by (simp_all add: numWorldTiles_def)
  have "tileize examplePlatform TILE_SIZE (Photo 300 200) (0, 0) =
       Some \<lparr>tile_image = Cropped (Photo 300 200)
               \<lparr>rect_x = 0, rect_y = 0, rect_w = 300, rect_h = 200\<rparr> 300 200,
             isEnhanced = False\<rparr>"
    by (simp add: tileize_lookup TILE_SIZE_pos)
      (simp add: examplePlatform_def TILE_SIZE_def nw cropRectAt_def)
  then have g: "tiles (handleNewCapture examplePlatform 7 (Answer None) (Photo 300 200) None None
        exampleLoaded) (0, 0) =
       Some \<lparr>tile_image = Cropped (Photo 300 200)
               \<lparr>rect_x = 0, rect_y = 0, rect_w = 300, rect_h = 200\<rparr> 300 200,
             isEnhanced = False\<rparr>"
    by (simp only: n startNewWorld_fields)
  from a b c d e f g show ?thesis by (intro conjI)
qed

section \<open>The vertical clamp\<close>

lemma clampPanY_holds:
  "verticalClampHolds cssHeight wHeight
     \<lparr>pan = \<lparr>pt_x = px, pt_y = clampPanY cssHeight wHeight z y\<rparr>, zoom = z\<rparr>"
  by (auto simp add: verticalClampHolds_def clampPanY_def Let_def)

lemma handleWheel_clamps:
  assumes "\<not> isBusy env" and "canvas env = Some r"
  shows "verticalClampHolds (rect_h r) (worldHeight env) (handleWheel env deltaY client vs)"
  using assms by (simp add: handleWheel_def Let_def clampPanY_holds)

lemma handleMouseMove_clamps:
  assumes "canvas env = Some r"
  shows "verticalClampHolds (rect_h r) (worldHeight env)
           (handleMouseMove env True panStart client vs)"
proof -
  have "handleMouseMove env True panStart client vs =
      \<lparr>pan = \<lparr>pt_x = pt_x client - rect_x r - pt_x panStart,
               pt_y = clampPanY (rect_h r) (worldHeight env) (zoom vs)
                        (pt_y client - rect_y r - pt_y panStart)\<rparr>,
       zoom = zoom vs\<rparr>"
    using assms by (simp add: handleMouseMove_def Let_def)
  then show ?thesis by (simp only: clampPanY_holds)
qed

lemma handleResetZoom_clamps:
  assumes "canvas env = Some r"
  shows "verticalClampHolds (rect_h r) (worldHeight env) (handleResetZoom env vs)"
  using assms by (auto simp add: handleResetZoom_def Let_def verticalClampHolds_def)

text \<open>
  C10.  The wheel, the drag and the reset leave the vertical pan clamped (the three lemmas
  above); the zoom buttons change the zoom and leave the pan as it is.  With a viewport
  800 high and a world 1000 high: at zoom 1 and pan.y = -200 the clamp holds, and after
  handleZoomOut (zoom 0.8, world now as high as the viewport) pan.y is still -200, not the
  centred 0; at zoom 0.5 and the centred pan.y = 150 the clamp holds, and after
  handleZoomIn (zoom 0.625) pan.y is still 150, not the centred 87.5.
\<close>

theorem zoom_buttons_skip_vertical_clamp:
  "verticalClampHolds 800 1000 \<lparr>pan = \<lparr>pt_x = 0, pt_y = - 200\<rparr>, zoom = 1\<rparr>
   \<and> handleZoomOut \<lparr>pan = \<lparr>pt_x = 0, pt_y = - 200\<rparr>, zoom = 1\<rparr>
       = \<lparr>pan = \<lparr>pt_x = 0, pt_y = - 200\<rparr>, zoom = 4 / 5\<rparr>
   \<and> \<not> verticalClampHolds 800 1000
         (handleZoomOut \<lparr>pan = \<lparr>pt_x = 0, pt_y = - 200\<rparr>, zoom = 1\<rparr>)
   \<and> verticalClampHolds 800 1000 \<lparr>pan = \<lparr>pt_x = 0, pt_y = 150\<rparr>, zoom = 1 / 2\<rparr>
   \<and> handleZoomIn \<lparr>pan = \<lparr>pt_x = 0, pt_y = 150\<rparr>, zoom = 1 / 2\<rparr>
       = \<lparr>pan = \<lparr>pt_x = 0, pt_y = 150\<rparr>, zoom = 5 / 8\<rparr>
   \<and> \<not> verticalClampHolds 800 1000
         (handleZoomIn \<lparr>pan = \<lparr>pt_x = 0, pt_y = 150\<rparr>, zoom = 1 / 2\<rparr>)"
  by (simp add: verticalClampHolds_def handleZoomOut_def handleZoomIn_def)

end
